theory Spec2Isabelle
  imports Complex_Main "HOL-Library.Char_ord"
begin

section \<open>Python values used by both scrapers\<close>

text \<open>
  Exceptions of the source are values: a function that can raise returns
  \<open>py_error + 'a\<close>, with \<open>Inl\<close> for the exception.
\<close>

datatype py_error = ZeroDivisionError | AttributeError

text \<open>Python's \<open>a / b\<close> on numbers: raises on a zero divisor. Floats are read as reals.\<close>

definition py_truediv :: "real \<Rightarrow> real \<Rightarrow> py_error + real" where
  "py_truediv a b = (if b = 0 then Inl ZeroDivisionError else Inr (a / b))"

section \<open>ProgressTracker (arcat\_scraper.py 137--241, sweets\_scraper.py 171--259)\<close>

text \<open>
  The two files hold the same class up to the names of two counters
  (\<open>total_companies\<close>/\<open>total_items\<close>, \<open>scraped_companies\<close>/\<open>scraped_items\<close>);
  the ARCAT names are kept. \<open>time.time()\<close> is an argument of the methods that read
  the clock.
\<close>

record ProgressTracker =
  start_time :: "real option"
  total_companies :: int
  scraped_companies :: int
  scrape_times :: "real list"
  last_update_time :: "real option"

definition ProgressTracker_init :: ProgressTracker where
  "ProgressTracker_init = \<lparr> start_time = None, total_companies = 0, scraped_companies = 0,
     scrape_times = [], last_update_time = None \<rparr>"

definition start :: "real \<Rightarrow> real \<Rightarrow> int \<Rightarrow> ProgressTracker \<Rightarrow> ProgressTracker" where
  "start now1 now2 total_n t = t\<lparr> start_time := Some now1, total_companies := total_n,
     scraped_companies := 0, scrape_times := [], last_update_time := Some now2 \<rparr>"

definition set_total :: "int \<Rightarrow> ProgressTracker \<Rightarrow> ProgressTracker" where
  "set_total total_n t = t\<lparr> total_companies := total_n \<rparr>"

text \<open>\<open>if self.last_update_time:\<close> is false for \<open>None\<close> and for \<open>0.0\<close>.\<close>

definition truthy_time :: "real option \<Rightarrow> bool" where
  "truthy_time x = (case x of None \<Rightarrow> False | Some v \<Rightarrow> v \<noteq> 0)"

definition last100 :: "real list \<Rightarrow> real list" where
  "last100 xs = (if length xs > 100 then drop (length xs - 100) xs else xs)"

definition update :: "real \<Rightarrow> int \<Rightarrow> ProgressTracker \<Rightarrow> ProgressTracker" where
  "update current_time count t =
     (let t1 = (if truthy_time (last_update_time t)
                then t\<lparr> scrape_times := last100 (scrape_times t @ [current_time - the (last_update_time t)]) \<rparr>
                else t)
      in t1\<lparr> last_update_time := Some current_time,
              scraped_companies := scraped_companies t1 + count \<rparr>)"

definition get_percentage :: "ProgressTracker \<Rightarrow> py_error + real" where
  "get_percentage t =
     (if total_companies t = 0 then Inr 0
      else case py_truediv (real_of_int (scraped_companies t)) (real_of_int (total_companies t)) of
             Inl e \<Rightarrow> Inl e
           | Inr q \<Rightarrow> Inr (q * 100))"

definition get_eta_seconds :: "ProgressTracker \<Rightarrow> py_error + real" where
  "get_eta_seconds t =
     (if scrape_times t = [] \<or> scraped_companies t = 0 then Inr 0
      else case py_truediv (sum_list (scrape_times t)) (real (length (scrape_times t))) of
             Inl e \<Rightarrow> Inl e
           | Inr avg_time \<Rightarrow>
               (let remaining = total_companies t - scraped_companies t
                in Inr (avg_time * real_of_int remaining)))"

definition get_speed :: "ProgressTracker \<Rightarrow> py_error + real" where
  "get_speed t =
     (if scrape_times t = [] then Inr 0
      else case py_truediv (sum_list (scrape_times t)) (real (length (scrape_times t))) of
             Inl e \<Rightarrow> Inl e
           | Inr avg_time \<Rightarrow>
               (if avg_time = 0 then Inr 0 else py_truediv 60 avg_time))"

section \<open>Fetch client: \<open>_make_request\<close> (arcat\_scraper.py 525--552, sweets\_scraper.py 428--455)\<close>

definition MAX_RETRIES :: nat where "MAX_RETRIES = 3"
definition RETRY_DELAY_BASE :: nat where "RETRY_DELAY_BASE = 5"

text \<open>
  What one \<open>session.get\<close> followed by \<open>raise_for_status\<close> does: it yields the parsed
  page, or raises \<open>Timeout\<close>, \<open>ConnectionError\<close>, or some other
  \<open>RequestException\<close> (a non-2xx status among them).
\<close>

datatype 'p outcome = Response 'p | Timeout | ConnectionError | RequestException

text \<open>
  The trace of what the routine does to the outside: the unconditional
  \<open>time.sleep(REQUEST_DELAY)\<close>, the GET, the back-off sleep with its delay in seconds,
  and, for the headless browser, \<open>driver.get\<close> and the settle delay that follows it.
\<close>

datatype event = RateLimitSleep | Get string | BackoffSleep nat | DriverGet string | SettleSleep

text \<open>
  The body of \<open>for attempt in range(MAX_RETRIES)\<close>, over the remaining values of
  \<open>attempt\<close>; \<open>nt attempt\<close> is the outcome of the GET made in iteration \<open>attempt\<close>.
  Leaving the loop returns \<open>None\<close>.
\<close>

fun make_request_loop ::
  "string \<Rightarrow> (nat \<Rightarrow> 'p outcome) \<Rightarrow> nat list \<Rightarrow> event list \<Rightarrow> 'p option \<times> event list" where
  "make_request_loop u nt [] tr = (None, tr)"
| "make_request_loop u nt (attempt # rest) tr =
     (let tr1 = tr @ [RateLimitSleep, Get u] in
      case nt attempt of
        Response p \<Rightarrow> (Some p, tr1)
      | Timeout \<Rightarrow>
          (let retry_delay = RETRY_DELAY_BASE * 2 ^ attempt in
           if attempt < MAX_RETRIES - 1
           then make_request_loop u nt rest (tr1 @ [BackoffSleep retry_delay])
           else (None, tr1))
      | ConnectionError \<Rightarrow>
          (let retry_delay = RETRY_DELAY_BASE * 2 ^ attempt in
           if attempt < MAX_RETRIES - 1
           then make_request_loop u nt rest (tr1 @ [BackoffSleep retry_delay])
           else (None, tr1))
      | RequestException \<Rightarrow> (None, tr1))"

definition make_request :: "string \<Rightarrow> (nat \<Rightarrow> 'p outcome) \<Rightarrow> 'p option \<times> event list" where
  "make_request u nt = make_request_loop u nt [0..<MAX_RETRIES] []"

definition attempts :: "event list \<Rightarrow> nat" where
  "attempts tr = length (filter (\<lambda>e. case e of Get _ \<Rightarrow> True | _ \<Rightarrow> False) tr)"

definition backoffs :: "event list \<Rightarrow> nat list" where
  "backoffs tr = concat (map (\<lambda>e. case e of BackoffSleep d \<Rightarrow> [d] | _ \<Rightarrow> []) tr)"

definition transient :: "'p outcome \<Rightarrow> bool" where
  "transient r = (case r of Timeout \<Rightarrow> True | ConnectionError \<Rightarrow> True | _ \<Rightarrow> False)"

section \<open>Strings and regular expressions of the source\<close>

text \<open>
  Python strings are read as lists of ASCII characters. The classes \<open>\d\<close>, \<open>\s\<close>,
  \<open>\w\<close> and the methods \<open>lower\<close>, \<open>upper\<close>, \<open>strip\<close> are the ASCII ones.
\<close>

definition is_digit :: "char \<Rightarrow> bool" where
  "is_digit c = (CHR ''0'' \<le> c \<and> c \<le> CHR ''9'')"

definition is_upper :: "char \<Rightarrow> bool" where
  "is_upper c = (CHR ''A'' \<le> c \<and> c \<le> CHR ''Z'')"

definition is_lower :: "char \<Rightarrow> bool" where
  "is_lower c = (CHR ''a'' \<le> c \<and> c \<le> CHR ''z'')"

definition is_space :: "char \<Rightarrow> bool" where
  "is_space c = (c = CHR '' '' \<or> (CHR 0x09 \<le> c \<and> c \<le> CHR 0x0D))"

definition is_word :: "char \<Rightarrow> bool" where
  "is_word c = (is_lower c \<or> is_upper c \<or> is_digit c \<or> c = CHR ''_'')"

definition lower_char :: "char \<Rightarrow> char" where
  "lower_char c =
     (if is_upper c
      then (case map_of (zip ''ABCDEFGHIJKLMNOPQRSTUVWXYZ'' ''abcdefghijklmnopqrstuvwxyz'') c of
              Some d \<Rightarrow> d | None \<Rightarrow> c)
      else c)"

definition upper_char :: "char \<Rightarrow> char" where
  "upper_char c =
     (if is_lower c
      then (case map_of (zip ''abcdefghijklmnopqrstuvwxyz'' ''ABCDEFGHIJKLMNOPQRSTUVWXYZ'') c of
              Some d \<Rightarrow> d | None \<Rightarrow> c)
      else c)"

definition lower :: "string \<Rightarrow> string" where "lower s = map lower_char s"
definition upper :: "string \<Rightarrow> string" where "upper s = map upper_char s"

text \<open>\<open>s.strip(chars)\<close> and \<open>s.strip()\<close>.\<close>

definition strip_chars :: "(char \<Rightarrow> bool) \<Rightarrow> string \<Rightarrow> string" where
  "strip_chars P s = rev (dropWhile P (rev (dropWhile P s)))"

definition strip :: "string \<Rightarrow> string" where "strip s = strip_chars is_space s"

text \<open>\<open>s.startswith(p)\<close> and \<open>sub in s\<close>.\<close>

fun startswith :: "string \<Rightarrow> string \<Rightarrow> bool" where
  "startswith s [] = True"
| "startswith [] (p # ps) = False"
| "startswith (c # cs) (p # ps) = (c = p \<and> startswith cs ps)"

fun contains :: "string \<Rightarrow> string \<Rightarrow> bool" where
  "contains [] sub = (sub = [])"
| "contains (c # cs) sub = (startswith (c # cs) sub \<or> contains cs sub)"

text \<open>\<open>s.split(c)[0]\<close> for a one-character separator.\<close>

definition split_first :: "char \<Rightarrow> string \<Rightarrow> string" where
  "split_first c s = takeWhile (\<lambda>x. x \<noteq> c) s"





subsection \<open>The patterns of module \<open>re\<close> that the source uses\<close>

text \<open>
  An item of a character class: a character, a range, \<open>\d\<close>, \<open>\s\<close>, \<open>\w\<close>. A pattern:
  the empty pattern, \<open>.\<close>, a class (a literal character is a class of one item), a negated
  class, sequence, alternation \<open>a|b\<close>, greedy \<open>a*\<close>, a numbered group, the look-arounds
  \<open>(?!a)\<close> and \<open>(?<![class])\<close>, \<open>^\<close>, \<open>$\<close> and \<open>\b\<close>.
\<close>

datatype item = Ch char | Rng char char | Digit | Space | Word

datatype rx = Eps | Dot | In "item list" | NotIn "item list"
  | Seq rx rx | Alt rx rx | Star rx | Grp nat rx
  | NotAhead rx | NotBehind "item list" | Bol | Eol | WordB

text \<open>The flag is \<open>re.IGNORECASE\<close>.\<close>

fun item_match :: "bool \<Rightarrow> item \<Rightarrow> char \<Rightarrow> bool" where
  "item_match ic (Ch a) c = (a = c \<or> (ic \<and> lower_char a = lower_char c))"
| "item_match ic (Rng a b) c =
     ((a \<le> c \<and> c \<le> b)
      \<or> (ic \<and> ((a \<le> lower_char c \<and> lower_char c \<le> b) \<or> (a \<le> upper_char c \<and> upper_char c \<le> b))))"
| "item_match ic Digit c = is_digit c"
| "item_match ic Space c = is_space c"
| "item_match ic Word c = is_word c"

definition class_match :: "bool \<Rightarrow> item list \<Rightarrow> char \<Rightarrow> bool" where
  "class_match ic is c = list_ex (\<lambda>i. item_match ic i c) is"

text \<open>
  A matcher state: the character before the position (\<open>None\<close> at the start of the
  subject), the rest of the subject, and the groups captured so far, the latest first.
\<close>

type_synonym mstate = "char option \<times> string \<times> (nat \<times> string) list"

definition m_prev :: "mstate \<Rightarrow> char option" where "m_prev s = fst s"
definition m_rest :: "mstate \<Rightarrow> string" where "m_rest s = fst (snd s)"
definition m_caps :: "mstate \<Rightarrow> (nat \<times> string) list" where "m_caps s = snd (snd s)"

definition m_step :: "(mstate \<Rightarrow> mstate option) \<Rightarrow> (char \<Rightarrow> bool) \<Rightarrow> mstate \<Rightarrow> mstate option" where
  "m_step k P s =
     (case m_rest s of
        [] \<Rightarrow> None
      | c # cs \<Rightarrow> if P c then k (Some c, cs, m_caps s) else None)"

text \<open>
  Backtracking in the order of \<open>re\<close>: a matcher takes the continuation that matches the
  rest of the pattern and returns the first success. \<open>a*\<close> tries one more \<open>a\<close> before it
  tries to stop; an iteration has to consume a character, so the length of the rest is
  fuel enough.
\<close>

primrec star_iter :: "nat \<Rightarrow> ((mstate \<Rightarrow> mstate option) \<Rightarrow> mstate \<Rightarrow> mstate option)
    \<Rightarrow> (mstate \<Rightarrow> mstate option) \<Rightarrow> mstate \<Rightarrow> mstate option" where
  "star_iter 0 f k s = k s"
| "star_iter (Suc n) f k s =
     (case f (\<lambda>s'. if length (m_rest s') < length (m_rest s) then star_iter n f k s' else None) s of
        Some r \<Rightarrow> Some r
      | None \<Rightarrow> k s)"

primrec rx_m :: "bool \<Rightarrow> rx \<Rightarrow> (mstate \<Rightarrow> mstate option) \<Rightarrow> mstate \<Rightarrow> mstate option" where
  "rx_m ic Eps k s = k s"
| "rx_m ic Dot k s = m_step k (\<lambda>c. c \<noteq> CHR 0x0A) s"
| "rx_m ic (In is) k s = m_step k (class_match ic is) s"
| "rx_m ic (NotIn is) k s = m_step k (\<lambda>c. \<not> class_match ic is c) s"
| "rx_m ic (Seq a b) k s = rx_m ic a (rx_m ic b k) s"
| "rx_m ic (Alt a b) k s = (case rx_m ic a k s of Some r \<Rightarrow> Some r | None \<Rightarrow> rx_m ic b k s)"
| "rx_m ic (Star a) k s = star_iter (length (m_rest s)) (rx_m ic a) k s"
| "rx_m ic (Grp i a) k s =
     rx_m ic a (\<lambda>s'. k (m_prev s', m_rest s',
        (i, take (length (m_rest s) - length (m_rest s')) (m_rest s)) # m_caps s')) s"
| "rx_m ic (NotAhead a) k s = (case rx_m ic a Some s of Some r \<Rightarrow> None | None \<Rightarrow> k s)"
| "rx_m ic (NotBehind is) k s =
     (case m_prev s of
        None \<Rightarrow> k s
      | Some c \<Rightarrow> if class_match ic is c then None else k s)"
| "rx_m ic Bol k s = (if m_prev s = None then k s else None)"
| "rx_m ic Eol k s = (if m_rest s = [] \<or> m_rest s = [CHR 0x0A] then k s else None)"
| "rx_m ic WordB k s =
     (if (case m_prev s of None \<Rightarrow> False | Some c \<Rightarrow> is_word c)
         \<noteq> (case m_rest s of [] \<Rightarrow> False | c # cs \<Rightarrow> is_word c)
      then k s else None)"

text \<open>Abbreviations of the pattern syntax: a literal word, \<open>a+\<close>, \<open>a?\<close>, \<open>a{n}\<close>.\<close>

definition lit :: "string \<Rightarrow> rx" where "lit w = foldr (\<lambda>c r. Seq (In [Ch c]) r) w Eps"
definition seq :: "rx list \<Rightarrow> rx" where "seq rs = foldr Seq rs Eps"
definition alt :: "rx list \<Rightarrow> rx" where "alt rs = foldr Alt (butlast rs) (last rs)"
definition plus :: "rx \<Rightarrow> rx" where "plus r = Seq r (Star r)"
definition opt :: "rx \<Rightarrow> rx" where "opt r = Alt r Eps"
definition rep :: "nat \<Rightarrow> rx \<Rightarrow> rx" where "rep n r = seq (replicate n r)"

text \<open>
  A match object is the final state. \<open>re.match\<close> matches at the start,
  \<open>re.search\<close> at the first position where the pattern matches.
\<close>

definition match_at :: "bool \<Rightarrow> rx \<Rightarrow> char option \<Rightarrow> string \<Rightarrow> mstate option" where
  "match_at ic r p s = rx_m ic r Some (p, s, [])"

fun search_from :: "bool \<Rightarrow> rx \<Rightarrow> char option \<Rightarrow> string \<Rightarrow> mstate option" where
  "search_from ic r p [] = match_at ic r p []"
| "search_from ic r p (c # cs) =
     (case match_at ic r p (c # cs) of
        Some m \<Rightarrow> Some m
      | None \<Rightarrow> search_from ic r (Some c) cs)"

definition re_match :: "bool \<Rightarrow> rx \<Rightarrow> string \<Rightarrow> mstate option" where
  "re_match ic r s = match_at ic r None s"

definition re_search :: "bool \<Rightarrow> rx \<Rightarrow> string \<Rightarrow> mstate option" where
  "re_search ic r s = search_from ic r None s"

text \<open>
  \<open>m.group(i)\<close>. Every group read by the source is outside any alternative or option of
  its pattern, so it is set whenever the pattern matches.
\<close>

definition group :: "mstate \<Rightarrow> nat \<Rightarrow> string" where
  "group m i = (case map_of (m_caps m) i of Some t \<Rightarrow> t | None \<Rightarrow> [])"

text \<open>
  \<open>re.findall\<close> for a pattern with one group: the group of every match, the scan
  resuming where the previous match ended (one character further after an empty match
  or a failure). The fuel is one more than the length of the subject.
\<close>

primrec findall_from :: "nat \<Rightarrow> bool \<Rightarrow> rx \<Rightarrow> char option \<Rightarrow> string \<Rightarrow> string list" where
  "findall_from 0 ic r p s = []"
| "findall_from (Suc n) ic r p s =
     (case match_at ic r p s of
        Some m \<Rightarrow>
          (if length (m_rest m) < length s
           then group m 1 # findall_from n ic r (m_prev m) (m_rest m)
           else (case s of
                   [] \<Rightarrow> [group m 1]
                 | c # cs \<Rightarrow> group m 1 # findall_from n ic r (Some c) cs))
      | None \<Rightarrow>
          (case s of
             [] \<Rightarrow> []
           | c # cs \<Rightarrow> findall_from n ic r (Some c) cs))"

definition re_findall :: "bool \<Rightarrow> rx \<Rightarrow> string \<Rightarrow> string list" where
  "re_findall ic r s = findall_from (Suc (length s)) ic r None s"

section \<open>ARCAT: data model (arcat\_scraper.py 39--134)\<close>

definition BASE_URL :: string where "BASE_URL = ''https://www.arcat.com''"

definition CHECKPOINT_INTERVAL :: nat where "CHECKPOINT_INTERVAL = 10"

definition STATE_ABBREV_TO_FULL :: "(string \<times> string) list" where
  "STATE_ABBREV_TO_FULL =
    [(''AL'', ''Alabama''), (''AK'', ''Alaska''), (''AZ'', ''Arizona''), (''AR'', ''Arkansas''),
     (''CA'', ''California''), (''CO'', ''Colorado''), (''CT'', ''Connecticut''), (''DE'', ''Delaware''),
     (''FL'', ''Florida''), (''GA'', ''Georgia''), (''HI'', ''Hawaii''), (''ID'', ''Idaho''),
     (''IL'', ''Illinois''), (''IN'', ''Indiana''), (''IA'', ''Iowa''), (''KS'', ''Kansas''),
     (''KY'', ''Kentucky''), (''LA'', ''Louisiana''), (''ME'', ''Maine''), (''MD'', ''Maryland''),
     (''MA'', ''Massachusetts''), (''MI'', ''Michigan''), (''MN'', ''Minnesota''), (''MS'', ''Mississippi''),
     (''MO'', ''Missouri''), (''MT'', ''Montana''), (''NE'', ''Nebraska''), (''NV'', ''Nevada''),
     (''NH'', ''New Hampshire''), (''NJ'', ''New Jersey''), (''NM'', ''New Mexico''), (''NY'', ''New York''),
     (''NC'', ''North Carolina''), (''ND'', ''North Dakota''), (''OH'', ''Ohio''), (''OK'', ''Oklahoma''),
     (''OR'', ''Oregon''), (''PA'', ''Pennsylvania''), (''RI'', ''Rhode Island''), (''SC'', ''South Carolina''),
     (''SD'', ''South Dakota''), (''TN'', ''Tennessee''), (''TX'', ''Texas''), (''UT'', ''Utah''),
     (''VT'', ''Vermont''), (''VA'', ''Virginia''), (''WA'', ''Washington''), (''WV'', ''West Virginia''),
     (''WI'', ''Wisconsin''), (''WY'', ''Wyoming''), (''DC'', ''District of Columbia''),
     (''AB'', ''Alberta''), (''BC'', ''British Columbia''), (''MB'', ''Manitoba''), (''NB'', ''New Brunswick''),
     (''NL'', ''Newfoundland and Labrador''), (''NS'', ''Nova Scotia''), (''NT'', ''Northwest Territories''),
     (''NU'', ''Nunavut''), (''ON'', ''Ontario''), (''PE'', ''Prince Edward Island''), (''QC'', ''Quebec''),
     (''SK'', ''Saskatchewan''), (''YT'', ''Yukon'')]"

text \<open>\<open>STATE_ABBREV_TO_FULL.get(k, d)\<close>.\<close>

definition state_full :: "string \<Rightarrow> string \<Rightarrow> string" where
  "state_full k d = (case map_of STATE_ABBREV_TO_FULL k of Some v \<Rightarrow> v | None \<Rightarrow> d)"

definition ASSOCIATION_KEYWORDS :: "string list" where
  "ASSOCIATION_KEYWORDS =
    [''association'', ''institute'', ''society'', ''council'', ''foundation'',
     ''federation'', ''board'', ''committee'', ''organization'', ''alliance'',
     ''coalition'', ''consortium'', ''forum'', ''guild'', ''league'', ''union'']"

record Company =
  name :: string
  url :: string
  company_id :: string
  address :: string
  state :: string
  phone :: string
  website :: string
  email :: string
  product_expert_name :: string
  product_expert_phone :: string
  product_expert_email :: string
  products :: "string list"
  building_product_category :: string

text \<open>The constructor call \<open>Company(name=.., url=.., company_id=.., building_product_category=..)\<close>.\<close>

definition new_Company :: "string \<Rightarrow> string \<Rightarrow> string \<Rightarrow> string \<Rightarrow> Company" where
  "new_Company n u i cat =
     \<lparr> name = n, url = u, company_id = i, address = [], state = [], phone = [], website = [],
       email = [], product_expert_name = [], product_expert_phone = [], product_expert_email = [],
       products = [], building_product_category = cat \<rparr>"

record Specification =
  csi_code :: string
  spec_title :: string
  spec_division :: string

record Division =
  code :: string
  division_name :: string
  division_url :: string
  specifications :: "Specification list"
  companies :: "Company list"

definition new_Division :: "string \<Rightarrow> string \<Rightarrow> string \<Rightarrow> Division" where
  "new_Division c n u =
     \<lparr> code = c, division_name = n, division_url = u, specifications = [], companies = [] \<rparr>"

text \<open>The dictionaries \<open>{'name': .., 'url': ..}\<close> kept in a category.\<close>

record NamedLink =
  link_name :: string
  link_url :: string

record BuildingProductCategory =
  category_name :: string
  category_url :: string
  subcategories :: "NamedLink list"
  related_csi_divisions :: "NamedLink list"
  category_companies :: "Company list"

section \<open>Pages\<close>

text \<open>
  What the source reads of a fetched page: the text of the response, and of its
  \<open>BeautifulSoup\<close> parse the \<open>a\<close> elements that have an \<open>href\<close>, in document order, each
  with its \<open>href\<close> and its \<open>get_text(strip=True)\<close>, and the two renderings of the document
  text, \<open>soup.get_text()\<close> and \<open>soup.get_text(separator=' ', strip=True)\<close>.
\<close>

record Page =
  html :: string
  anchors :: "(string \<times> string) list"
  get_text :: string
  get_text_sep :: string

text \<open>
  The web: the outcome of the GET of a URL in iteration \<open>attempt\<close> of a request loop
  (a single GET is attempt 0), and what the headless browser returns for a URL
  (\<open>None\<close> when it raises).
\<close>

record Web =
  net :: "string \<Rightarrow> nat \<Rightarrow> Page outcome"
  render :: "string \<Rightarrow> Page option"

text \<open>\<open>soup.find_all('a', href=re.compile(p))\<close>: the pattern is searched in the \<open>href\<close>.\<close>

definition find_all_a :: "bool \<Rightarrow> rx \<Rightarrow> Page \<Rightarrow> (string \<times> string) list" where
  "find_all_a ic r pg = filter (\<lambda>l. re_search ic r (fst l) \<noteq> None) (anchors pg)"

section \<open>ARCAT: extraction (arcat\_scraper.py 662--1004)\<close>

subsection \<open>Pieces of patterns\<close>

definition dq :: char where "dq = CHR 0x22"

definition d :: rx where "d = In [Digit]"
definition ws :: rx where "ws = In [Space]"
definition q :: rx where "q = In [Ch dq]"
definition nq :: rx where "nq = NotIn [Ch dq]"
definition AZ :: rx where "AZ = In [Rng CHR ''A'' CHR ''Z'']"
definition az :: rx where "az = In [Rng CHR ''a'' CHR ''z'']"

text \<open>\<open>",\s*"\<close>\<close>

definition next_field :: rx where "next_field = seq [q, lit '','', Star ws, q]"

text \<open>\<open>\d{3}[-.\s]?\d{3}[-.\s]?\d{4}\<close> and \<open>\d{3}[-.\s]\d{3}[-.\s]\d{4}\<close>\<close>

definition phone_loose :: rx where
  "phone_loose = seq [rep 3 d, opt (In [Ch CHR ''-'', Ch CHR ''.'', Space]), rep 3 d,
                      opt (In [Ch CHR ''-'', Ch CHR ''.'', Space]), rep 4 d]"

definition phone_sep :: rx where
  "phone_sep = seq [rep 3 d, In [Ch CHR ''-'', Ch CHR ''.'', Space], rep 3 d,
                    In [Ch CHR ''-'', Ch CHR ''.'', Space], rep 4 d]"

text \<open>\<open>[a-zA-Z0-9._%+-]+@[a-zA-Z0-9.-]+\.[a-zA-Z]{2,}\<close>\<close>

definition email_rx :: rx where
  "email_rx = seq
     [plus (In [Rng CHR ''a'' CHR ''z'', Rng CHR ''A'' CHR ''Z'', Rng CHR ''0'' CHR ''9'',
                Ch CHR ''.'', Ch CHR ''_'', Ch CHR ''%'', Ch CHR ''+'', Ch CHR ''-'']),
      lit ''@'',
      plus (In [Rng CHR ''a'' CHR ''z'', Rng CHR ''A'' CHR ''Z'', Rng CHR ''0'' CHR ''9'',
                Ch CHR ''.'', Ch CHR ''-'']),
      lit ''.'',
      rep 2 (In [Rng CHR ''a'' CHR ''z'', Rng CHR ''A'' CHR ''Z'']),
      Star (In [Rng CHR ''a'' CHR ''z'', Rng CHR ''A'' CHR ''Z''])]"

text \<open>\<open>[A-Z][a-z]+\s+[A-Z][a-z]+\<close>\<close>

definition person_rx :: rx where
  "person_rx = seq [AZ, plus az, plus ws, AZ, plus az]"

subsection \<open>\<open>_extract_state_from_address\<close> and \<open>_is_association\<close>\<close>

text \<open>\<open>,\s*([A-Z]{2})\s*\d{5}\<close>\<close>

definition state_in_address :: rx where
  "state_in_address = seq [lit '','', Star ws, Grp 1 (rep 2 AZ), Star ws, rep 5 d]"

definition extract_state_from_address :: "string \<Rightarrow> string" where
  "extract_state_from_address addr =
     (if addr = [] then []
      else case re_search False state_in_address addr of
             Some m \<Rightarrow> (let abbrev = upper (group m 1) in state_full abbrev abbrev)
           | None \<Rightarrow> [])"

definition is_association :: "string \<Rightarrow> bool" where
  "is_association company_name =
     (let name_lower = lower company_name
      in list_ex (\<lambda>keyword. contains name_lower keyword) ASSOCIATION_KEYWORDS)"

subsection \<open>\<open>_extract_from_nuxt_data\<close>\<close>

record NuxtData =
  n_address :: string
  n_city :: string
  n_state :: string
  n_zip :: string
  n_phone :: string
  n_email :: string
  n_website :: string

definition nuxt_empty :: NuxtData where
  "nuxt_empty = \<lparr> n_address = [], n_city = [], n_state = [], n_zip = [], n_phone = [],
                   n_email = [], n_website = [] \<rparr>"

text \<open>
  \<open>"(\d+[^"]*(?:Rd|St|...|Parkway)\.?[^"]*)",\s*"([^"]*)",\s*"\<close>: the street and the city,
  up to the opening quote of the next field.
\<close>

definition nuxt_street_city :: rx where
  "nuxt_street_city = seq
     [q, Grp 1 (seq [plus d, Star nq,
          alt (map lit [''Rd'', ''St'', ''Ave'', ''Dr'', ''Blvd'', ''Way'', ''Ln'', ''Pkwy'', ''Place'',
                        ''Pl'', ''Circle'', ''Ct'', ''Court'', ''Road'', ''Street'', ''Avenue'', ''Drive'',
                        ''Boulevard'', ''Lane'', ''Parkway'']),
          opt (lit ''.''), Star nq]),
      next_field, Grp 2 (Star nq), next_field]"

text \<open>\<open>([A-Z]{2})",\s*"(\d{5}(?:-\d{4})?)",\s*\<close>\<close>

definition nuxt_state_zip :: rx where
  "nuxt_state_zip = seq
     [Grp 3 (rep 2 AZ), next_field,
      Grp 4 (seq [rep 5 d, opt (seq [lit ''-'', rep 4 d])]), q, lit '','', Star ws]"

definition pattern_with_null :: rx where
  "pattern_with_null = seq
     [nuxt_street_city, nuxt_state_zip, lit ''null,'', Star ws,
      q, Grp 5 (Star nq), next_field, Grp 6 (seq [Star nq, lit ''@'', Star nq]), q]"

definition pattern_direct :: rx where
  "pattern_direct = seq
     [nuxt_street_city, nuxt_state_zip,
      q, Grp 5 (Star nq), next_field, Grp 6 (seq [Star nq, lit ''@'', Star nq]), q]"

definition pattern3 :: rx where
  "pattern3 = seq
     [nuxt_street_city, nuxt_state_zip, opt (seq [lit ''null,'', Star ws]),
      q, Grp 5 (seq [rep 3 d, opt (In [Ch CHR ''-'', Ch CHR ''.'']), rep 3 d,
                     opt (In [Ch CHR ''-'', Ch CHR ''.'']), rep 4 d]), q]"

text \<open>
  \<open>...,\s*"([A-Z]{2}),?\s*Canada",\s*"([A-Z]\d[A-Z]\s*\d[A-Z]\d)",\s*"([^"]*)",\s*"([^"]*)",\s*"([^"]*@[^"]*)"\<close>
\<close>

definition pattern_canada :: rx where
  "pattern_canada = seq
     [nuxt_street_city, Grp 3 (rep 2 AZ), opt (lit '',''), Star ws, lit ''Canada'', next_field,
      Grp 4 (seq [AZ, d, AZ, Star ws, d, AZ, d]), next_field,
      Grp 5 (Star nq), next_field, Grp 6 (Star nq), next_field,
      Grp 7 (seq [Star nq, lit ''@'', Star nq]), q]"

text \<open>
  \<open>"(https?://(?:www\.)?(?!.*arcat\.com)[a-zA-Z0-9][-a-zA-Z0-9]*\.[a-zA-Z]{2,}(?:/[^"]*)?)"\<close>
\<close>

definition website_pattern :: rx where
  "website_pattern = seq
     [q, Grp 1 (seq
        [lit ''http'', opt (lit ''s''), lit ''://'', opt (lit ''www.''),
         NotAhead (seq [Star Dot, lit ''arcat.com'']),
         In [Rng CHR ''a'' CHR ''z'', Rng CHR ''A'' CHR ''Z'', Rng CHR ''0'' CHR ''9''],
         Star (In [Ch CHR ''-'', Rng CHR ''a'' CHR ''z'', Rng CHR ''A'' CHR ''Z'', Rng CHR ''0'' CHR ''9'']),
         lit ''.'',
         rep 2 (In [Rng CHR ''a'' CHR ''z'', Rng CHR ''A'' CHR ''Z'']),
         Star (In [Rng CHR ''a'' CHR ''z'', Rng CHR ''A'' CHR ''Z'']),
         opt (seq [lit ''/'', Star nq])]),
      q]"

definition skip_domains :: "string list" where
  "skip_domains = [''facebook'', ''twitter'', ''linkedin'', ''google'', ''youtube'', ''clarity'',
     ''analytics'', ''schema.org'', ''w3.org'', ''cloudflare'', ''jsdelivr'',
     ''googleapis'', ''gstatic'', ''microsoft'', ''bing'', ''doubleclick'']"

definition nuxt_set6 :: "mstate \<Rightarrow> NuxtData \<Rightarrow> NuxtData" where
  "nuxt_set6 m data = data\<lparr> n_address := strip (group m 1), n_city := strip (group m 2),
     n_state := strip (group m 3), n_zip := strip (group m 4), n_phone := strip (group m 5),
     n_email := strip (group m 6) \<rparr>"

definition extract_from_nuxt_data :: "string \<Rightarrow> NuxtData" where
  "extract_from_nuxt_data h =
     (let data = nuxt_empty;
          data = (case re_search True pattern_with_null h of
                    Some m \<Rightarrow> nuxt_set6 m data
                  | None \<Rightarrow> data);
          data = (if n_address data = []
                  then (case re_search True pattern_direct h of
                          Some m \<Rightarrow> nuxt_set6 m data
                        | None \<Rightarrow> data)
                  else data);
          data = (if n_address data = []
                  then (case re_search True pattern3 h of
                          Some m \<Rightarrow> data\<lparr> n_address := strip (group m 1), n_city := strip (group m 2),
                                     n_state := strip (group m 3), n_zip := strip (group m 4),
                                     n_phone := strip (group m 5) \<rparr>
                        | None \<Rightarrow> data)
                  else data);
          data = (if n_address data = []
                  then (case re_search True pattern_canada h of
                          Some m \<Rightarrow> data\<lparr> n_address := strip (group m 1), n_city := strip (group m 2),
                                     n_state := strip (group m 3), n_zip := strip (group m 4),
                                     n_phone := (if strip (group m 5) \<noteq> [] then strip (group m 5)
                                                 else strip (group m 6)),
                                     n_email := strip (group m 7) \<rparr>
                        | None \<Rightarrow> data)
                  else data)
      in case find (\<lambda>u. \<not> list_ex (\<lambda>x. contains (lower u) x) skip_domains)
                   (re_findall False website_pattern h) of
           Some u \<Rightarrow> data\<lparr> n_website := u \<rparr>
         | None \<Rightarrow> data)"

subsection \<open>\<open>_extract_from_rendered_html\<close>\<close>

text \<open>
  Of the dictionary the function returns, \<open>city\<close> and the three \<open>product_expert\<close> entries
  are never written and never read; they are left out.
\<close>

record RenderedData =
  r_address :: string
  r_state :: string
  r_phone :: string
  r_email :: string
  r_website :: string

definition rendered_empty :: RenderedData where
  "rendered_empty = \<lparr> r_address = [], r_state = [], r_phone = [], r_email = [], r_website = [] \<rparr>"

text \<open>\<open>[\w\s\.\,]+\<close>\<close>

definition addr_chars :: rx where
  "addr_chars = plus (In [Word, Space, Ch CHR ''.'', Ch CHR '',''])"

text \<open>
  \<open>(\d+[\w\s\.\,]+(?:Rd|Road|...|Ct)\.?[\w\s\.\,]+,?\s*[A-Z]{2}\s+\d{5}(?:-\d{4})?)\<close>
\<close>

definition rendered_address1 :: rx where
  "rendered_address1 = Grp 1 (seq
     [plus d, addr_chars,
      alt (map lit [''Rd'', ''Road'', ''St'', ''Street'', ''Ave'', ''Avenue'', ''Dr'', ''Drive'', ''Blvd'',
                    ''Boulevard'', ''Way'', ''Ln'', ''Lane'', ''Pkwy'', ''Parkway'', ''Place'', ''Pl'',
                    ''Circle'', ''Court'', ''Ct'']),
      opt (lit ''.''), addr_chars, opt (lit '',''), Star ws, rep 2 AZ, plus ws, rep 5 d,
      opt (seq [lit ''-'', rep 4 d])])"

text \<open>\<open>(P\.?\s*O\.?\s*Box\s+\d+[\w\s\.\,]+,?\s*[A-Z]{2}\s+\d{5})\<close>\<close>

definition rendered_address2 :: rx where
  "rendered_address2 = Grp 1 (seq
     [lit ''P'', opt (lit ''.''), Star ws, lit ''O'', opt (lit ''.''), Star ws, lit ''Box'', plus ws,
      plus d, addr_chars, opt (lit '',''), Star ws, rep 2 AZ, plus ws, rep 5 d])"

text \<open>\<open>,?\s*([A-Z]{2})\s+\d{5}\<close>\<close>

definition rendered_state :: rx where
  "rendered_state = seq [opt (lit '',''), Star ws, Grp 1 (rep 2 AZ), plus ws, rep 5 d]"

text \<open>\<open>re.sub(r'\s+', ' ', addr)\<close>; the flag says that the previous character was a space.\<close>

fun collapse_ws :: "bool \<Rightarrow> string \<Rightarrow> string" where
  "collapse_ws b [] = []"
| "collapse_ws b (c # cs) =
     (if is_space c then (if b then collapse_ws True cs else CHR '' '' # collapse_ws True cs)
      else c # collapse_ws False cs)"

text \<open>
  \<open>(?:Phone|Tel|Telephone)[:\s]*(\d{3}[-.\s]?\d{3}[-.\s]?\d{4})\<close> and
  \<open>(?:Toll\s*Free)[:\s]*(\d{3}[-.\s]?\d{3}[-.\s]?\d{4})\<close>
\<close>

definition phone_labelled :: rx where
  "phone_labelled = seq [alt [lit ''Phone'', lit ''Tel'', lit ''Telephone''],
     Star (In [Ch CHR '':'', Space]), Grp 1 phone_loose]"

definition phone_toll_free :: rx where
  "phone_toll_free = seq [lit ''Toll'', Star ws, lit ''Free'',
     Star (In [Ch CHR '':'', Space]), Grp 1 phone_loose]"

text \<open>The first pattern of a list that matches, as \<open>for pattern in ...: if match: ...; break\<close>.\<close>

fun first_search :: "bool \<Rightarrow> rx list \<Rightarrow> string \<Rightarrow> mstate option" where
  "first_search ic [] s = None"
| "first_search ic (r # rs) s =
     (case re_search ic r s of Some m \<Rightarrow> Some m | None \<Rightarrow> first_search ic rs s)"

text \<open>\<open>^mailto:\<close>, \<open>mailto:([^\?]+)\<close>, \<open>\b(email)\b\<close>, \<open>^https?://\<close>, \<open>\.[a-z]{2,4}/?$\<close>\<close>

definition mailto_start :: rx where "mailto_start = seq [Bol, lit ''mailto:'']"

definition mailto_target :: rx where
  "mailto_target = seq [lit ''mailto:'', Grp 1 (plus (NotIn [Ch CHR ''?'']))]"

definition email_word :: rx where "email_word = seq [WordB, Grp 1 email_rx, WordB]"

definition http_start :: rx where
  "http_start = seq [Bol, lit ''http'', opt (lit ''s''), lit ''://'']"

definition tld_end :: rx where
  "tld_end = seq [lit ''.'', rep 2 az, opt az, opt az, opt (lit ''/''), Eol]"

definition any_in :: "string list \<Rightarrow> string \<Rightarrow> bool" where
  "any_in subs s = list_ex (\<lambda>x. contains s x) subs"

definition extract_from_rendered_html :: "Page \<Rightarrow> RenderedData" where
  "extract_from_rendered_html soup =
     (let data = rendered_empty;
          page_text = get_text_sep soup;
          data = (case first_search True [rendered_address1, rendered_address2] page_text of
                    Some m \<Rightarrow>
                      (let addr = strip (group m 1);
                           data = data\<lparr> r_address := collapse_ws False addr \<rparr>
                       in case re_search False rendered_state addr of
                            Some sm \<Rightarrow> data\<lparr> r_state := group sm 1 \<rparr>
                          | None \<Rightarrow> data)
                  | None \<Rightarrow> data);
          data = (case first_search True [phone_labelled, phone_toll_free, Grp 1 phone_sep] page_text of
                    Some m \<Rightarrow> data\<lparr> r_phone := strip (group m 1) \<rparr>
                  | None \<Rightarrow> data);
          data = (case find_all_a False mailto_start soup of
                    mailto_link # rest \<Rightarrow>
                      (case re_search False mailto_target (fst mailto_link) of
                         Some m \<Rightarrow> data\<lparr> r_email := strip (group m 1) \<rparr>
                       | None \<Rightarrow> data)
                  | [] \<Rightarrow>
                      (case re_search False email_word page_text of
                         Some m \<Rightarrow>
                           (let e = group m 1
                            in if \<not> any_in [''noreply'', ''donotreply'', ''unsubscribe'', ''@arcat''] (lower e)
                               then data\<lparr> r_email := e \<rparr> else data)
                       | None \<Rightarrow> data))
      in case find (\<lambda>href.
                 \<not> any_in [''facebook.com'', ''twitter.com'', ''linkedin.com'', ''instagram.com'',
                            ''youtube.com'', ''arcat.com'', ''pinterest.com'', ''tiktok.com'',
                            ''google.com'', ''clarity.ms''] (lower href)
                 \<and> \<not> (contains href ''/spec-doc/'' \<or> contains href ''/specification/'')
                 \<and> (contains href ''www.'' \<or> re_search False tld_end href \<noteq> None))
               (map fst (find_all_a False http_start soup)) of
           Some href \<Rightarrow> data\<lparr> r_website := href \<rparr>
         | None \<Rightarrow> data)"

subsection \<open>\<open>scrape_company_details\<close>\<close>

text \<open>
  \<open>(\d+\s+[\w\s\.]+(?:Ave|Avenue|...|Pl)\.?[,\s]+[\w\s]+,\s*[A-Z]{2}\s*\d{5}(?:-\d{4})?)\<close> and
  \<open>(P\.?\s*O\.?\s*Box\s+\d+[,\s]+[\w\s]+,\s*[A-Z]{2}\s*\d{5})\<close>
\<close>

definition fallback_address1 :: rx where
  "fallback_address1 = Grp 1 (seq
     [plus d, plus ws, plus (In [Word, Space, Ch CHR ''.'']),
      alt (map lit [''Ave'', ''Avenue'', ''St'', ''Street'', ''Rd'', ''Road'', ''Dr'', ''Drive'', ''Blvd'',
                    ''Boulevard'', ''Pkwy'', ''Parkway'', ''Way'', ''Ln'', ''Lane'', ''Circle'', ''Court'',
                    ''Ct'', ''Place'', ''Pl'']),
      opt (lit ''.''), plus (In [Ch CHR '','', Space]), plus (In [Word, Space]), lit '','', Star ws,
      rep 2 AZ, Star ws, rep 5 d, opt (seq [lit ''-'', rep 4 d])])"

definition fallback_address2 :: rx where
  "fallback_address2 = Grp 1 (seq
     [lit ''P'', opt (lit ''.''), Star ws, lit ''O'', opt (lit ''.''), Star ws, lit ''Box'', plus ws,
      plus d, plus (In [Ch CHR '','', Space]), plus (In [Word, Space]), lit '','', Star ws,
      rep 2 AZ, Star ws, rep 5 d])"

text \<open>\<open>(\(\d{3}\)\s*\d{3}[-.\s]?\d{4})\<close> and \<open>(?<!\d)(\d{3}[-.\s]\d{3}[-.\s]\d{4})(?!\d)\<close>\<close>

definition phone_paren :: rx where
  "phone_paren = Grp 1 (seq [lit ''('', rep 3 d, lit '')'', Star ws, rep 3 d,
     opt (In [Ch CHR ''-'', Ch CHR ''.'', Space]), rep 4 d])"

definition phone_bare :: rx where
  "phone_bare = seq [NotBehind [Digit], Grp 1 phone_sep, NotAhead d]"

text \<open>\<open>href="mailto:(email)"\<close>\<close>

definition mailto_href :: rx where
  "mailto_href = seq [lit ''href='', q, lit ''mailto:'', Grp 1 email_rx, q]"

text \<open>
  The three patterns of the product expert:
  \<open><p>(person)<br[^>]*>(phone)<br[^>]*><a[^>]*href="mailto:([^"]+)"\<close>,
  \<open>Product\s*Expert[^"]*"(person)"[^"]*"(phone)"[^"]*"(email)"\<close> and
  \<open>"(person)",\d+,"(phone)","(email)"\<close>.
\<close>

definition expert_html_pattern :: rx where
  "expert_html_pattern = seq
     [lit ''<p>'', Grp 1 person_rx, lit ''<br'', Star (NotIn [Ch CHR ''>'']), lit ''>'',
      Grp 2 phone_loose, lit ''<br'', Star (NotIn [Ch CHR ''>'']), lit ''>'',
      lit ''<a'', Star (NotIn [Ch CHR ''>'']), lit ''href='', q, lit ''mailto:'', Grp 3 (plus nq), q]"

definition expert_pattern :: rx where
  "expert_pattern = seq
     [lit ''Product'', Star ws, lit ''Expert'', Star nq, q, Grp 1 person_rx, q, Star nq,
      q, Grp 2 phone_loose, q, Star nq, q, Grp 3 email_rx, q]"

definition alt_expert_pattern :: rx where
  "alt_expert_pattern = seq
     [q, Grp 1 person_rx, q, lit '','', plus d, lit '','', q, Grp 2 phone_loose, q, lit '','',
      q, Grp 3 email_rx, q]"

text \<open>The block guarded by \<open>if soup:\<close> in the browser branch.\<close>

definition apply_rendered :: "RenderedData \<Rightarrow> Company \<Rightarrow> Company" where
  "apply_rendered rendered_data company =
     (let company = (if r_address rendered_data \<noteq> []
                     then (let company = company\<lparr> address := r_address rendered_data \<rparr>
                           in if r_state rendered_data \<noteq> []
                              then company\<lparr> state := state_full (upper (r_state rendered_data))
                                                                   (r_state rendered_data) \<rparr>
                              else company)
                     else company);
          company = (if r_phone rendered_data \<noteq> []
                     then company\<lparr> phone := r_phone rendered_data \<rparr> else company);
          company = (if r_email rendered_data \<noteq> []
                     then company\<lparr> email := r_email rendered_data \<rparr> else company)
      in if r_website rendered_data \<noteq> []
         then company\<lparr> website := r_website rendered_data \<rparr> else company)"

text \<open>Lines 887--907: the values of the serialized data, each written when it is not empty.\<close>

definition apply_nuxt :: "NuxtData \<Rightarrow> Company \<Rightarrow> Company" where
  "apply_nuxt nuxt_data company =
     (let company = (if n_address nuxt_data \<noteq> []
                     then (let city = strip (n_city nuxt_data);
                               st = strip (n_state nuxt_data);
                               zip_code = strip (n_zip nuxt_data)
                           in company\<lparr>
                                address := strip_chars (\<lambda>c. c = CHR '','' \<or> c = CHR '' '')
                                   (n_address nuxt_data @ '', '' @ city @ '', '' @ st @ '' '' @ zip_code),
                                state := state_full (upper st) st \<rparr>)
                     else company);
          company = (if n_phone nuxt_data \<noteq> []
                     then company\<lparr> phone := n_phone nuxt_data \<rparr> else company);
          company = (if n_email nuxt_data \<noteq> []
                     then company\<lparr> email := n_email nuxt_data \<rparr> else company)
      in if n_website nuxt_data \<noteq> []
         then company\<lparr> website := n_website nuxt_data \<rparr> else company)"

text \<open>
  Lines 909--976. A step works on the company as the steps before have left it; it
  returns the company as it leaves it and the exception it raises, if any. \<open>soup\<close> is
  \<open>None\<close> when no page was fetched; reading it then raises \<open>AttributeError\<close>.
\<close>

definition fallback_address :: "Page option \<Rightarrow> Company \<Rightarrow> py_error option \<times> Company" where
  "fallback_address soup company =
     (if address company = []
      then (case soup of
              None \<Rightarrow> (Some AttributeError, company)
            | Some pg \<Rightarrow>
                (let company = (case first_search True [fallback_address1, fallback_address2] (get_text pg) of
                                  Some m \<Rightarrow> company\<lparr> address := strip (group m 1) \<rparr>
                                | None \<Rightarrow> company)
                 in if address company \<noteq> []
                    then (None, company\<lparr> state := extract_state_from_address (address company) \<rparr>)
                    else (None, company)))
      else (None, company))"

definition fallback_phone :: "Page option \<Rightarrow> Company \<Rightarrow> py_error option \<times> Company" where
  "fallback_phone soup company =
     (if phone company = []
      then (case soup of
              None \<Rightarrow> (Some AttributeError, company)
            | Some pg \<Rightarrow>
                (case first_search True [phone_labelled, phone_toll_free, phone_paren, phone_bare]
                        (get_text pg) of
                   Some m \<Rightarrow> (None, company\<lparr> phone := strip (group m 1) \<rparr>)
                 | None \<Rightarrow> (None, company)))
      else (None, company))"

definition fallback_website :: "Page option \<Rightarrow> Company \<Rightarrow> py_error option \<times> Company" where
  "fallback_website soup company =
     (if website company = []
      then (case soup of
              None \<Rightarrow> (Some AttributeError, company)
            | Some pg \<Rightarrow>
                (case find (\<lambda>href.
                          \<not> any_in [''facebook.com'', ''twitter.com'', ''linkedin.com'', ''instagram.com'',
                                     ''youtube.com'', ''arcat.com'', ''pinterest.com'', ''tiktok.com'']
                                    (lower href)
                          \<and> \<not> (contains href ''/spec-doc/'' \<or> contains href ''/specification/'')
                          \<and> (contains href ''www.''
                               \<or> any_in [''.com'', ''.org'', ''.net'', ''.us'', ''.co''] href))
                        (map fst (find_all_a False http_start pg)) of
                   Some href \<Rightarrow> (None, company\<lparr> website := href \<rparr>)
                 | None \<Rightarrow> (None, company)))
      else (None, company))"

definition fallback_email :: "string \<Rightarrow> Page option \<Rightarrow> Company \<Rightarrow> py_error option \<times> Company" where
  "fallback_email h soup company =
     (if email company = []
      then (case re_search False mailto_href h of
              Some m \<Rightarrow> (None, company\<lparr> email := strip (group m 1) \<rparr>)
            | None \<Rightarrow>
                (case soup of
                   None \<Rightarrow> (Some AttributeError, company)
                 | Some pg \<Rightarrow>
                     (case re_search False email_word (get_text pg) of
                        Some m \<Rightarrow>
                          (let e = group m 1
                           in if \<not> any_in [''noreply'', ''donotreply'', ''unsubscribe''] (lower e)
                              then (None, company\<lparr> email := e \<rparr>) else (None, company))
                      | None \<Rightarrow> (None, company))))
      else (None, company))"

definition set_expert :: "mstate \<Rightarrow> Company \<Rightarrow> Company" where
  "set_expert m company = company\<lparr> product_expert_name := strip (group m 1),
     product_expert_phone := strip (group m 2), product_expert_email := strip (group m 3) \<rparr>"

definition extract_expert :: "string \<Rightarrow> Company \<Rightarrow> Company" where
  "extract_expert h company =
     (case re_search False expert_html_pattern h of
        Some m \<Rightarrow> set_expert m company
      | None \<Rightarrow>
          (case re_search True expert_pattern h of
             Some m \<Rightarrow> set_expert m company
           | None \<Rightarrow>
               (case re_search False alt_expert_pattern h of
                  Some m \<Rightarrow> set_expert m company
                | None \<Rightarrow> company)))"

text \<open>The next statement runs when the one before has not raised.\<close>

definition and_then ::
  "py_error option \<times> Company \<Rightarrow> (Company \<Rightarrow> py_error option \<times> Company) \<Rightarrow> py_error option \<times> Company" where
  "and_then x f = (case fst x of Some e \<Rightarrow> x | None \<Rightarrow> f (snd x))"

text \<open>Lines 887--1004: all that follows the fetch, on the text \<open>html\<close> and the parse \<open>soup\<close>.\<close>

definition extract_details :: "string \<Rightarrow> Page option \<Rightarrow> Company \<Rightarrow> py_error option \<times> Company" where
  "extract_details h soup company =
     and_then (and_then (and_then (and_then
       (fallback_address soup (apply_nuxt (extract_from_nuxt_data h) company))
       (fallback_phone soup))
       (fallback_website soup))
       (fallback_email h soup))
       (\<lambda>company. (None, extract_expert h company))"

text \<open>
  \<open>_get_page_with_selenium\<close> (lines 497--523): the rate-limit sleep, \<open>driver.get\<close>, the wait
  for the body and three more seconds; \<open>("", None)\<close> on any exception.
\<close>

definition get_page_with_selenium :: "Web \<Rightarrow> string \<Rightarrow> Page option \<times> event list" where
  "get_page_with_selenium web u =
     (case render web u of
        Some pg \<Rightarrow> (Some pg, [RateLimitSleep, DriverGet u, SettleSleep])
      | None \<Rightarrow> (None, [RateLimitSleep, DriverGet u]))"

text \<open>
  \<open>scrape_company_details\<close>. The flag is \<open>self.use_selenium and self.driver\<close>. The
  result is the exception raised, if any, the company as the call leaves it, and the
  trace of the requests made.
\<close>

definition scrape_company_details ::
  "Web \<Rightarrow> bool \<Rightarrow> Company \<Rightarrow> (py_error option \<times> Company) \<times> event list" where
  "scrape_company_details web selenium company =
     (let (soup, tr) = (if selenium then get_page_with_selenium web (url company) else (None, []));
          company = (if selenium
                     then (case soup of
                             Some pg \<Rightarrow> apply_rendered (extract_from_rendered_html pg) company
                           | None \<Rightarrow> company)
                     else company)
      in if address company = []
         then (case net web (url company) 0 of
                 Response pg \<Rightarrow>
                   (extract_details (html pg) (Some pg) company, tr @ [RateLimitSleep, Get (url company)])
               | _ \<Rightarrow> ((None, company), tr @ [RateLimitSleep, Get (url company)]))
         else (extract_details (case soup of Some pg \<Rightarrow> html pg | None \<Rightarrow> []) soup company, tr))"

section \<open>ARCAT: listing pages (arcat\_scraper.py 1041--1198)\<close>

text \<open>\<open>s.zfill(2)\<close> on a string of digits.\<close>

definition zfill2 :: "string \<Rightarrow> string" where
  "zfill2 s = replicate (2 - length s) CHR ''0'' @ s"

text \<open>
  \<open>/content-type/product/[\w-]+-\d+/[\w-]+-\d+\<close> and, for the text of the link,
  \<open>^(\d+)\s*-\s*(.+)$\<close>
\<close>

definition csi_division_href :: rx where
  "csi_division_href = seq [lit ''/content-type/product/'', plus (In [Word, Ch CHR ''-'']), lit ''-'',
     plus d, lit ''/'', plus (In [Word, Ch CHR ''-'']), lit ''-'', plus d]"

definition csi_division_text :: rx where
  "csi_division_text = seq [Bol, Grp 1 (plus d), Star ws, lit ''-'', Star ws, Grp 2 (plus Dot), Eol]"

text \<open>The loop of \<open>scrape_related_csi_divisions\<close> over the links, with \<open>seen_urls\<close> and \<open>divisions\<close>.\<close>

fun related_csi_divisions_loop ::
  "(string \<times> string) list \<Rightarrow> string list \<Rightarrow> Division list \<Rightarrow> Division list" where
  "related_csi_divisions_loop [] seen_urls ds = ds"
| "related_csi_divisions_loop (link # links) seen_urls ds =
     (let href = fst link in
      if href \<in> set seen_urls then related_csi_divisions_loop links seen_urls ds
      else (let text = snd link; full_url = BASE_URL @ href in
            case re_match False csi_division_text text of
              Some m \<Rightarrow>
                (let formatted_code = zfill2 (group m 1) @ '' 00 00''
                 in related_csi_divisions_loop links (href # seen_urls)
                      (ds @ [new_Division formatted_code (strip (group m 2)) full_url]))
            | None \<Rightarrow> related_csi_divisions_loop links (href # seen_urls) ds))"

text \<open>
  \<open>scrape_related_csi_divisions\<close>: the divisions found, or \<open>None\<close> when the request fails
  (the method then returns before it assigns \<open>self.divisions\<close>).
\<close>

definition scrape_related_csi_divisions :: "Web \<Rightarrow> Division list option \<times> event list" where
  "scrape_related_csi_divisions web =
     (let u = BASE_URL @ ''/products/building_products_categories'' in
      case make_request u (net web u) of
        (None, tr) \<Rightarrow> (None, tr)
      | (Some soup, tr) \<Rightarrow>
          (Some (related_csi_divisions_loop (find_all_a False csi_division_href soup) [] []), tr))"

text \<open>\<open>/company/[\w-]+-\d+(?:\?|$)\<close> and \<open>-(\d+)(?:\?|$)\<close>\<close>

definition company_href :: rx where
  "company_href = seq [lit ''/company/'', plus (In [Word, Ch CHR ''-'']), lit ''-'', plus d,
     alt [lit ''?'', Eol]]"

definition company_id_rx :: rx where
  "company_id_rx = seq [lit ''-'', Grp 1 (plus d), alt [lit ''?'', Eol]]"

text \<open>The company built from a link at lines 1134--1145.\<close>

definition listed_company :: "Division \<Rightarrow> string \<times> string \<Rightarrow> Company" where
  "listed_company division link =
     (let href = fst link; company_name = snd link;
          cid = (case re_search False company_id_rx href of
                   Some m \<Rightarrow> group m 1 | None \<Rightarrow> []);
          full_url = (if startswith href ''/'' then BASE_URL @ href else href)
      in new_Company company_name full_url cid (code division @ '' - '' @ division_name division))"

text \<open>
  The loop of \<open>scrape_division_manufacturers\<close> (lines 1115--1146). \<open>seen_companies\<close> is the
  dictionary in insertion order; the second component is \<open>skipped_associations\<close>.
\<close>

fun division_manufacturers_loop ::
  "Division \<Rightarrow> (string \<times> string) list \<Rightarrow> (string \<times> Company) list \<times> nat
    \<Rightarrow> (string \<times> Company) list \<times> nat" where
  "division_manufacturers_loop division [] acc = acc"
| "division_manufacturers_loop division (link # links) (seen_companies, skipped_associations) =
     (let href = fst link; company_name = snd link in
      if company_name = [] \<or> contains href ''/cad'' \<or> contains href ''/bim'' \<or> contains href ''/spec''
      then division_manufacturers_loop division links (seen_companies, skipped_associations)
      else (let base_href = split_first CHR ''?'' href in
            if base_href \<in> set (map fst seen_companies)
            then division_manufacturers_loop division links (seen_companies, skipped_associations)
            else if is_association company_name
            then division_manufacturers_loop division links (seen_companies, skipped_associations + 1)
            else division_manufacturers_loop division links
                   (seen_companies @ [(base_href, listed_company division link)],
                    skipped_associations)))"

definition scrape_division_manufacturers :: "Web \<Rightarrow> Division \<Rightarrow> Division \<times> event list" where
  "scrape_division_manufacturers web division =
     (case make_request (division_url division) (net web (division_url division)) of
        (None, tr) \<Rightarrow> (division, tr)
      | (Some soup, tr) \<Rightarrow>
          (division\<lparr> companies :=
             map snd (fst (division_manufacturers_loop division (find_all_a False company_href soup) ([], 0))) \<rparr>,
           tr))"







section \<open>ARCAT: checkpoints (arcat\_scraper.py 306--466)\<close>

text \<open>
  The checkpoint file. Of a division it holds the code, the name, the URL and the
  companies; of a company every field but \<open>products\<close>. The records below are the ones
  \<open>_restore_from_checkpoint\<close> builds from the file, so a field the file does not hold has
  its default. The timestamp and the two progress dictionaries, which are written as
  constants and never read, are left out.
\<close>

record Checkpoint =
  cp_mode :: string
  cp_companies_scraped :: nat
  cp_divisions :: "Division list"
  cp_categories :: "BuildingProductCategory list"

definition stored_company :: "Company \<Rightarrow> Company" where
  "stored_company c = c\<lparr> products := [] \<rparr>"

definition stored_division :: "Division \<Rightarrow> Division" where
  "stored_division dv = dv\<lparr> specifications := [], companies := map stored_company (companies dv) \<rparr>"

definition stored_category :: "BuildingProductCategory \<Rightarrow> BuildingProductCategory" where
  "stored_category cat = cat\<lparr> category_companies := map stored_company (category_companies cat) \<rparr>"

text \<open>
  The scraper object. \<open>driver\<close> stands for \<open>self.use_selenium and self.driver\<close>;
  \<open>checkpoint_file\<close> is the content of the file on disk. Two fields are not in the
  source: \<open>detail_calls\<close> lists the URL of every company \<open>scrape_company_details\<close> was
  called on, and \<open>trace\<close> the requests and sleeps made. The progress tracker and the
  logger, which the crawl writes and never reads, are left out.
\<close>

record Scraper =
  divisions :: "Division list"
  building_product_categories :: "BuildingProductCategory list"
  driver :: bool
  companies_scraped_count :: nat
  interrupted :: bool
  checkpoint_file :: "Checkpoint option"
  detail_calls :: "string list"
  trace :: "event list"

text \<open>A new process: a fresh scraper object over what is on disk.\<close>

definition ARCATScraper :: "bool \<Rightarrow> Checkpoint option \<Rightarrow> Scraper" where
  "ARCATScraper use_selenium disk =
     \<lparr> divisions = [], building_product_categories = [], driver = use_selenium,
       companies_scraped_count = 0, interrupted = False, checkpoint_file = disk,
       detail_calls = [], trace = [] \<rparr>"

definition save_checkpoint :: "string \<Rightarrow> Scraper \<Rightarrow> Scraper" where
  "save_checkpoint mode s =
     s\<lparr> checkpoint_file := Some \<lparr> cp_mode = mode,
            cp_companies_scraped = companies_scraped_count s,
            cp_divisions = map stored_division (divisions s),
            cp_categories = map stored_category (building_product_categories s) \<rparr> \<rparr>"

definition load_checkpoint :: "Scraper \<Rightarrow> Checkpoint option" where
  "load_checkpoint s = checkpoint_file s"

text \<open>\<open>_restore_from_checkpoint\<close> appends what it reads to the lists of the scraper.\<close>

definition restore_from_checkpoint :: "Checkpoint \<Rightarrow> Scraper \<Rightarrow> Scraper" where
  "restore_from_checkpoint cp s =
     s\<lparr> divisions := divisions s @ cp_divisions cp,
        building_product_categories := building_product_categories s @ cp_categories cp,
        companies_scraped_count := cp_companies_scraped cp \<rparr>"

text \<open>
  \<open>_maybe_save_checkpoint\<close>; the interval is the module constant \<open>CHECKPOINT_INTERVAL\<close>,
  taken as an argument.
\<close>

definition maybe_save_checkpoint :: "nat \<Rightarrow> string \<Rightarrow> Scraper \<Rightarrow> Scraper" where
  "maybe_save_checkpoint interval mode s =
     (if companies_scraped_count s > 0 \<and> companies_scraped_count s mod interval = 0
      then save_checkpoint mode s else s)"

definition close :: "Scraper \<Rightarrow> Scraper" where
  "close s = s\<lparr> driver := False \<rparr>"

section \<open>ARCAT: the crawl \<open>scrape_csi_only\<close> (arcat\_scraper.py 1687--1781)\<close>

text \<open>\<open>xs[:n] if n else xs\<close>, for \<open>n\<close> that is \<open>None\<close> or a natural number.\<close>

definition limit :: "nat option \<Rightarrow> 'a list \<Rightarrow> 'a list" where
  "limit n xs = (case n of None \<Rightarrow> xs | Some k \<Rightarrow> if k = 0 then xs else take k xs)"

text \<open>
  How a run ends: it returns, it raises, or the process is killed. A run is given the
  number of calls of \<open>scrape_company_details\<close> after which it is stopped from outside, if
  it is, and how: killed at once, or by an exception raised in the loop, which the
  handler of the crawl catches.
\<close>

datatype halt = Kill | Raise

datatype status = Returned | Raised | Killed

text \<open>
  The first pass (lines 1730--1734) over the divisions to process: a division with no
  company is expanded.
\<close>

fun count_pass :: "Web \<Rightarrow> Division list \<Rightarrow> Division list \<times> event list" where
  "count_pass web [] = ([], [])"
| "count_pass web (division # rest) =
     (let (division1, tr1) = (if companies division = []
                              then scrape_division_manufacturers web division
                              else (division, []));
          (rest1, tr2) = count_pass web rest
      in (division1 # rest1, tr1 @ tr2))"

text \<open>
  The inner loop of the second pass (lines 1748--1764) for division \<open>i\<close>, over the
  indices of the companies to process; the boolean says that the loop was left by
  \<open>break\<close> or ran to its end, as opposed to an end of the run. A company is changed in
  place, so the change is written at its index.
\<close>

definition set_company :: "nat \<Rightarrow> nat \<Rightarrow> Company \<Rightarrow> Scraper \<Rightarrow> Scraper" where
  "set_company i j c s =
     s\<lparr> divisions := (divisions s)[i := (divisions s ! i)\<lparr> companies := (companies (divisions s ! i))[j := c] \<rparr>] \<rparr>"

fun detail_loop ::
  "Web \<Rightarrow> nat \<Rightarrow> string list \<Rightarrow> (nat \<times> halt) option \<Rightarrow> nat \<Rightarrow> nat list \<Rightarrow> Scraper
    \<Rightarrow> Scraper \<times> (nat \<times> halt) option \<times> status option" where
  "detail_loop web interval scraped_company_urls budget i [] s = (s, budget, None)"
| "detail_loop web interval scraped_company_urls budget i (j # js) s =
     (let company = companies (divisions s ! i) ! j in
      if url company \<in> set scraped_company_urls
      then detail_loop web interval scraped_company_urls budget i js s
      else if interrupted s then (s, budget, None)
      else if budget = Some (0, Kill) then (s, budget, Some Killed)
      else if budget = Some (0, Raise) then (s, budget, Some Raised)
      else (let budget1 = map_option (\<lambda>(n, h). (n - 1, h)) budget;
                ((err, company1), tr) = scrape_company_details web (driver s) company;
                s1 = (set_company i j company1 s)\<lparr> detail_calls := detail_calls s @ [url company],
                                                   trace := trace s @ tr \<rparr>
            in case err of
                 Some e \<Rightarrow> (s1, budget1, Some Raised)
               | None \<Rightarrow>
                   (let s2 = s1\<lparr> companies_scraped_count := companies_scraped_count s1 + 1 \<rparr>;
                        s3 = maybe_save_checkpoint interval ''csi-only'' s2
                    in detail_loop web interval scraped_company_urls budget1 i js s3)))"

text \<open>The outer loop of the second pass (lines 1740--1767), over the indices of the divisions.\<close>

fun division_loop ::
  "Web \<Rightarrow> nat \<Rightarrow> string list \<Rightarrow> nat option \<Rightarrow> (nat \<times> halt) option \<Rightarrow> nat list \<Rightarrow> Scraper
    \<Rightarrow> Scraper \<times> status option" where
  "division_loop web interval scraped_company_urls max_companies budget [] s = (s, None)"
| "division_loop web interval scraped_company_urls max_companies budget (i # is) s =
     (if interrupted s then (s, None)
      else (let js = [0..<length (limit max_companies (companies (divisions s ! i)))];
                (s1, budget1, st) = detail_loop web interval scraped_company_urls budget i js s
            in case st of
                 Some e \<Rightarrow> (s1, Some e)
               | None \<Rightarrow>
                   (if interrupted s1 then (s1, None)
                    else division_loop web interval scraped_company_urls max_companies budget1 is s1)))"

text \<open>
  The URLs of the companies of the store that have an address (lines 1712--1715).
\<close>

definition addressed_urls :: "Division list \<Rightarrow> string list" where
  "addressed_urls ds = concat (map (\<lambda>dv. map url (filter (\<lambda>c. address c \<noteq> []) (companies dv))) ds)"

text \<open>
  Lines 1706--1716: with \<open>resume\<close>, a checkpoint that is there and has the mode
  \<open>csi-only\<close> is restored, and the set of the URLs already scraped is built from it.
\<close>

definition adopt_checkpoint :: "bool \<Rightarrow> Scraper \<Rightarrow> Scraper \<times> string list" where
  "adopt_checkpoint resume scraper =
     (if resume
      then (case load_checkpoint scraper of
              Some cp \<Rightarrow>
                (if cp_mode cp = ''csi-only''
                 then (let s = restore_from_checkpoint cp scraper in (s, addressed_urls (divisions s)))
                 else (scraper, []))
            | None \<Rightarrow> (scraper, []))
      else (scraper, []))"

text \<open>Lines 1720--1721: the divisions are fetched when the scraper has none.\<close>

definition load_divisions :: "Web \<Rightarrow> Scraper \<Rightarrow> Scraper" where
  "load_divisions web s =
     (if divisions s = []
      then (case scrape_related_csi_divisions web of
              (Some ds, tr) \<Rightarrow> s\<lparr> divisions := ds, trace := trace s @ tr \<rparr>
            | (None, tr) \<Rightarrow> s\<lparr> trace := trace s @ tr \<rparr>)
      else s)"

text \<open>
  Lines 1730--1734 on the first \<open>n\<close> divisions, which are the divisions to process; a
  division is changed in place, so the others stay.
\<close>

definition count_divisions :: "Web \<Rightarrow> nat \<Rightarrow> Scraper \<Rightarrow> Scraper" where
  "count_divisions web n s =
     (let (expanded, tr) = count_pass web (take n (divisions s))
      in s\<lparr> divisions := expanded @ drop n (divisions s), trace := trace s @ tr \<rparr>)"

text \<open>
  Lines 1769--1781: the final checkpoint of a run that was not interrupted, the handler
  of an exception, which saves a checkpoint and raises again, and \<open>close\<close>; a killed
  process does none of it.
\<close>

definition end_of_run :: "Scraper \<times> status option \<Rightarrow> Scraper \<times> status" where
  "end_of_run r =
     (case snd r of
        None \<Rightarrow> (close (if \<not> interrupted (fst r) then save_checkpoint ''csi-only'' (fst r) else fst r),
                 Returned)
      | Some st \<Rightarrow>
          (if st = Killed then (fst r, Killed)
           else (close (save_checkpoint ''csi-only'' (fst r)), Raised)))"

definition scrape_csi_only ::
  "Web \<Rightarrow> nat \<Rightarrow> (nat \<times> halt) option \<Rightarrow> nat option \<Rightarrow> nat option \<Rightarrow> bool \<Rightarrow> Scraper
    \<Rightarrow> Scraper \<times> status" where
  "scrape_csi_only web interval budget max_divisions max_companies resume scraper =
     (let (s, scraped_company_urls) = adopt_checkpoint resume scraper;
          s = load_divisions web s;
          n = length (limit max_divisions (divisions s));
          s = count_divisions web n s
      in end_of_run (division_loop web interval scraped_company_urls max_companies budget [0..<n] s))"

section \<open>Concrete webs, pages and runs\<close>



text \<open>A page given by the text of the response and its links, with no other text.\<close>

definition page :: "string \<Rightarrow> (string \<times> string) list \<Rightarrow> Page" where
  "page h as = \<lparr> html = h, anchors = as, get_text = [], get_text_sep = [] \<rparr>"

text \<open>Fields in double quotes, separated by commas, as the site serializes them.\<close>

fun serialized :: "string list \<Rightarrow> string" where
  "serialized [] = []"
| "serialized [f] = dq # f @ [dq]"
| "serialized (f # g # fs) = dq # f @ [dq] @ '','' @ serialized (g # fs)"

text \<open>The markup of the scenario of the specification, and a short one of the same form.\<close>

definition scenario_markup :: string where
  "scenario_markup = serialized [''123 Oak Rd.'', ''Austin'', ''TX'', ''78701'', ''512-555-0100'',
     ''info@example.com'']"

definition detail_markup :: string where
  "detail_markup = serialized [''1 Rd'', ''A'', ''TX'', ''78701'', ''5'', ''a@b'']"

definition root_url :: string where
  "root_url = BASE_URL @ ''/products/building_products_categories''"

definition division_a :: "string \<times> string" where
  "division_a = (''/content-type/product/a-02/a-020000'', ''02 - A'')"

definition division_b :: "string \<times> string" where
  "division_b = (''/content-type/product/b-03/b-030000'', ''03 - B'')"



text \<open>Two divisions that list the same company.\<close>

definition web_shared :: Web where
  "web_shared = \<lparr> net = (\<lambda>u k.
       if u = root_url then Response (page [] [division_a, division_b])
       else if u = BASE_URL @ fst division_a \<or> u = BASE_URL @ fst division_b
       then Response (page [] [(''/company/x-1'', ''X'')])
       else if u = BASE_URL @ ''/company/x-1'' then Response (page detail_markup [])
       else RequestException),
     render = (\<lambda>u. None) \<rparr>"









text \<open>
  The crawl of the two divisions that share a company: in one pass; stopped when one
  company is done, by an exception, after which the handler writes a checkpoint, or by
  the end of the process just after a periodic checkpoint (here with an interval of 1);
  resumed from the checkpoint, which is \<open>checkpoint_shared\<close> in both cases.
\<close>

definition full_shared :: "Scraper \<times> status" where
  "full_shared = scrape_csi_only web_shared CHECKPOINT_INTERVAL None None None False (ARCATScraper False None)"





text \<open>The addresses of the store, division by division.\<close>

definition store_addresses :: "Scraper \<Rightarrow> string list list" where
  "store_addresses s = map (\<lambda>dv. map address (companies dv)) (divisions s)"

text \<open>The URLs of the companies of the store, without their query strings.\<close>

definition store_keys :: "Scraper \<Rightarrow> string list" where
  "store_keys s = concat (map (\<lambda>dv. map (\<lambda>c. split_first CHR ''?'' (url c)) (companies dv)) (divisions s))"

text \<open>The page of the scenario, and a company met on a listing page.\<close>

definition web_scenario :: Web where
  "web_scenario = \<lparr> net = (\<lambda>u k. Response (page scenario_markup [])), render = (\<lambda>u. None) \<rparr>"

definition fresh_company :: Company where
  "fresh_company = new_Company ''Oak Supply'' (BASE_URL @ ''/company/oak-supply-7'') ''7'' ''04 00 00 - MASONRY''"




definition acme_brick :: "string \<times> string" where
  "acme_brick = (''/company/acme-brick-1'', ''Acme Brick'')"

definition acme_brick_again :: "string \<times> string" where
  "acme_brick_again = (''/company/acme-brick-1?tab=products'', ''Acme Brick Company'')"


definition masonry_division :: Division where
  "masonry_division = new_Division ''04 00 00'' ''MASONRY'' (BASE_URL @ ''/content-type/product/masonry-04/masonry-040000'')"



section \<open>Properties\<close>

lemma upt_MAX_RETRIES: "[0..<MAX_RETRIES] = [0, 1, 2]"
  by (simp add: MAX_RETRIES_def upt_rec)

lemma make_request_all_transient:
  assumes "\<forall>k. transient (nt k)"
  shows "make_request u nt =
     (None, [RateLimitSleep, Get u, BackoffSleep 5, RateLimitSleep, Get u, BackoffSleep 10,
             RateLimitSleep, Get u])"
proof -
  have t: "transient (nt 0)" "transient (nt 1)" "transient (nt 2)"
    using assms by blast+
  have one: "Suc 0 = 1" by simp
  show ?thesis
    using t unfolding make_request_def upt_MAX_RETRIES
    by (simp add: transient_def MAX_RETRIES_def RETRY_DELAY_BASE_def Let_def
             split: outcome.splits)
qed

text \<open>
  C6. A URL that times out or refuses the connection on every attempt is tried
  \<open>MAX_RETRIES\<close> (3) times and no more; the back-off delays slept between the attempts
  are \<open>RETRY_DELAY_BASE * 2 ^ attempt\<close> for the attempts 0 and 1, each strictly greater
  than the one before; after the last failed attempt the routine returns \<open>None\<close>. The
  routine is a total function, so it returns on every input.
\<close>

theorem make_request_retries_bounded_backoff_increasing:
  assumes "\<forall>k. transient (nt k)"
  shows "fst (make_request u nt) = None
       \<and> attempts (snd (make_request u nt)) = MAX_RETRIES
       \<and> backoffs (snd (make_request u nt))
           = map (\<lambda>attempt. RETRY_DELAY_BASE * 2 ^ attempt) [0..<MAX_RETRIES - 1]
       \<and> sorted_wrt (<) (backoffs (snd (make_request u nt)))"
proof -
  have "[0..<MAX_RETRIES - 1] = [0, 1]"
    by (simp add: MAX_RETRIES_def upt_rec)
  then show ?thesis
    by (simp add: make_request_all_transient [OF assms] attempts_def backoffs_def
          MAX_RETRIES_def RETRY_DELAY_BASE_def)
qed

theorem make_request_retries_bounded_backoff_increasing_witness:
  "(\<forall>k. transient ((\<lambda>k. if even k then Timeout else ConnectionError) k :: unit outcome))
   \<and> fst (make_request ''u'' (\<lambda>k. if even k then Timeout else ConnectionError :: unit outcome)) = None
   \<and> attempts (snd (make_request ''u'' (\<lambda>k. if even k then Timeout else ConnectionError :: unit outcome))) = MAX_RETRIES
   \<and> backoffs (snd (make_request ''u'' (\<lambda>k. if even k then Timeout else ConnectionError :: unit outcome))) = [5, 10]"
proof -
  have h: "\<forall>k. transient ((\<lambda>k. if even k then Timeout else ConnectionError) k :: unit outcome)"
    by (simp add: transient_def)
  have "[0..<MAX_RETRIES - 1] = [0, 1]"
    by (simp add: MAX_RETRIES_def upt_rec)
  then show ?thesis
    using h make_request_retries_bounded_backoff_increasing [OF h, of "''u''"]
    by (simp add: RETRY_DELAY_BASE_def)
qed

text \<open>
  C10. The three queries return a number on every tracker (no \<open>ZeroDivisionError\<close>),
  and each guard gives zero: \<open>get_percentage\<close> when the total is 0,
  \<open>get_eta_seconds\<close> when no duration is recorded or nothing is scraped yet,
  \<open>get_speed\<close> when the window is empty or its average is 0.
\<close>

theorem progress_queries_total_and_guarded:
  "(\<exists>r. get_percentage t = Inr r) \<and> (\<exists>r. get_eta_seconds t = Inr r) \<and> (\<exists>r. get_speed t = Inr r)
   \<and> (total_companies t = 0 \<longrightarrow> get_percentage t = Inr 0)
   \<and> (scrape_times t = [] \<or> scraped_companies t = 0 \<longrightarrow> get_eta_seconds t = Inr 0)
   \<and> (scrape_times t = [] \<longrightarrow> get_speed t = Inr 0)
   \<and> (sum_list (scrape_times t) / real (length (scrape_times t)) = 0 \<longrightarrow> get_speed t = Inr 0)"
  by (auto simp: get_percentage_def get_eta_seconds_def get_speed_def py_truediv_def Let_def)

theorem progress_queries_total_and_guarded_witness:
  "total_companies ProgressTracker_init = 0 \<and> scrape_times ProgressTracker_init = []
   \<and> get_percentage ProgressTracker_init = Inr 0
   \<and> get_eta_seconds ProgressTracker_init = Inr 0
   \<and> get_speed ProgressTracker_init = Inr 0
   \<and> sum_list (scrape_times (update 7 1 (start 7 7 5 ProgressTracker_init)))
        / real (length (scrape_times (update 7 1 (start 7 7 5 ProgressTracker_init)))) = 0
   \<and> get_speed (update 7 1 (start 7 7 5 ProgressTracker_init)) = Inr 0"
proof -
  have a: "total_companies ProgressTracker_init = 0" "scrape_times ProgressTracker_init = []"
    by (simp_all add: ProgressTracker_init_def)
  have b: "scrape_times (update 7 1 (start 7 7 5 ProgressTracker_init)) = [0]"
    by (simp add: update_def start_def ProgressTracker_init_def truthy_time_def last100_def)
  show ?thesis
    using a b progress_queries_total_and_guarded [of ProgressTracker_init]
      progress_queries_total_and_guarded [of "update 7 1 (start 7 7 5 ProgressTracker_init)"]
    by simp
qed






lemma dml_skip:
  "snd link = [] \<or> contains (fst link) ''/cad'' \<or> contains (fst link) ''/bim'' \<or> contains (fst link) ''/spec''
   \<Longrightarrow> division_manufacturers_loop dv (link # links) (seen, k) = division_manufacturers_loop dv links (seen, k)"
  by (simp add: Let_def)

lemma dml_dup:
  "split_first CHR ''?'' (fst link) \<in> set (map fst seen)
   \<Longrightarrow> division_manufacturers_loop dv (link # links) (seen, k) = division_manufacturers_loop dv links (seen, k)"
  by (simp add: Let_def)

lemma dml_assoc:
  "\<not> (snd link = [] \<or> contains (fst link) ''/cad'' \<or> contains (fst link) ''/bim'' \<or> contains (fst link) ''/spec'')
   \<Longrightarrow> split_first CHR ''?'' (fst link) \<notin> set (map fst seen) \<Longrightarrow> is_association (snd link)
   \<Longrightarrow> division_manufacturers_loop dv (link # links) (seen, k) = division_manufacturers_loop dv links (seen, k + 1)"
  by (simp add: Let_def)

lemma dml_new:
  "\<not> (snd link = [] \<or> contains (fst link) ''/cad'' \<or> contains (fst link) ''/bim'' \<or> contains (fst link) ''/spec'')
   \<Longrightarrow> split_first CHR ''?'' (fst link) \<notin> set (map fst seen) \<Longrightarrow> \<not> is_association (snd link)
   \<Longrightarrow> division_manufacturers_loop dv (link # links) (seen, k)
       = division_manufacturers_loop dv links (seen @ [(split_first CHR ''?'' (fst link), listed_company dv link)], k)"
  by (simp add: Let_def)

lemma dml_cases:
  obtains (skip) "snd link = [] \<or> contains (fst link) ''/cad'' \<or> contains (fst link) ''/bim'' \<or> contains (fst link) ''/spec''"
  | (dup) "split_first CHR ''?'' (fst link) \<in> set (map fst seen)"
  | (assoc) "\<not> (snd link = [] \<or> contains (fst link) ''/cad'' \<or> contains (fst link) ''/bim'' \<or> contains (fst link) ''/spec'')"
       "split_first CHR ''?'' (fst link) \<notin> set (map fst seen)" "is_association (snd link)"
  | (new) "\<not> (snd link = [] \<or> contains (fst link) ''/cad'' \<or> contains (fst link) ''/bim'' \<or> contains (fst link) ''/spec'')"
       "split_first CHR ''?'' (fst link) \<notin> set (map fst seen)" "\<not> is_association (snd link)"
  by blast

lemma dml_prefix: "\<exists>more. fst (division_manufacturers_loop dv links (seen, k)) = seen @ more"
proof (induction links arbitrary: seen k)
  case Nil
  then show ?case by simp
next
  case (Cons link links)
  show ?case
  proof (cases rule: dml_cases [where link=link and seen=seen])
    case skip
    then show ?thesis using Cons.IH [of seen k] by (simp add: dml_skip del: division_manufacturers_loop.simps)
  next
    case dup
    then show ?thesis using Cons.IH [of seen k] by (simp add: dml_dup del: division_manufacturers_loop.simps)
  next
    case assoc
    then show ?thesis using Cons.IH [of seen "k + 1"] by (simp add: dml_assoc del: division_manufacturers_loop.simps)
  next
    case new
    obtain m where "fst (division_manufacturers_loop dv links
        (seen @ [(split_first CHR ''?'' (fst link), listed_company dv link)], k))
        = (seen @ [(split_first CHR ''?'' (fst link), listed_company dv link)]) @ m"
      using Cons.IH by blast
    then show ?thesis using new by (simp add: dml_new del: division_manufacturers_loop.simps)
  qed
qed

lemma dml_distinct:
  "distinct (map fst seen) \<Longrightarrow> distinct (map fst (fst (division_manufacturers_loop dv links (seen, k))))"
proof (induction links arbitrary: seen k)
  case Nil
  then show ?case by simp
next
  case (Cons link links)
  show ?case
  proof (cases rule: dml_cases [where link=link and seen=seen])
    case skip
    then show ?thesis using Cons.IH [of seen k] Cons.prems by (simp add: dml_skip del: division_manufacturers_loop.simps)
  next
    case dup
    then show ?thesis using Cons.IH [of seen k] Cons.prems by (simp add: dml_dup del: division_manufacturers_loop.simps)
  next
    case assoc
    then show ?thesis using Cons.IH [of seen "k + 1"] Cons.prems by (simp add: dml_assoc del: division_manufacturers_loop.simps)
  next
    case new
    have "distinct (map fst (seen @ [(split_first CHR ''?'' (fst link), listed_company dv link)]))"
      using new(2) Cons.prems by simp
    then show ?thesis using new Cons.IH by (simp add: dml_new del: division_manufacturers_loop.simps)
  qed
qed



lemma split_first_BASE_URL:
  "split_first CHR ''?'' (BASE_URL @ h) = BASE_URL @ split_first CHR ''?'' h"
  by (simp add: split_first_def BASE_URL_def)

lemma dml_relative_urls:
  "list_all (\<lambda>l. startswith (fst l) ''/'') links \<Longrightarrow>
   list_all (\<lambda>e. split_first CHR ''?'' (url (snd e)) = BASE_URL @ fst e) seen \<Longrightarrow>
   list_all (\<lambda>e. split_first CHR ''?'' (url (snd e)) = BASE_URL @ fst e)
     (fst (division_manufacturers_loop dv links (seen, k)))"
proof (induction links arbitrary: seen k)
  case Nil
  then show ?case by simp
next
  case (Cons link links)
  have rest: "list_all (\<lambda>l. startswith (fst l) ''/'') links" and rel: "startswith (fst link) ''/''"
    using Cons.prems(1) by simp_all
  show ?case
  proof (cases rule: dml_cases [where link=link and seen=seen])
    case skip
    then show ?thesis using Cons.IH [OF rest, of seen k] Cons.prems(2) by (simp add: dml_skip del: division_manufacturers_loop.simps)
  next
    case dup
    then show ?thesis using Cons.IH [OF rest, of seen k] Cons.prems(2) by (simp add: dml_dup del: division_manufacturers_loop.simps)
  next
    case assoc
    then show ?thesis using Cons.IH [OF rest, of seen "k + 1"] Cons.prems(2) by (simp add: dml_assoc del: division_manufacturers_loop.simps)
  next
    case new
    have "url (listed_company dv link) = BASE_URL @ fst link"
      using rel by (simp add: listed_company_def new_Company_def Let_def)
    then have "list_all (\<lambda>e. split_first CHR ''?'' (url (snd e)) = BASE_URL @ fst e)
        (seen @ [(split_first CHR ''?'' (fst link), listed_company dv link)])"
      using Cons.prems(2) by (simp add: split_first_BASE_URL)
    then show ?thesis using new Cons.IH [OF rest] by (simp add: dml_new del: division_manufacturers_loop.simps)
  qed
qed






text \<open>
  C3, as the code has it. The dictionary built by one expansion of a division never
  holds a key twice, the key being the href of the listing entry with its query string
  cut off; an entry whose key is already there is skipped, and the entries already
  there stay as they are, whatever follows. When every href is relative to the site, no
  two companies of the expansion have the same URL up to the query string. The values of
  the serialized data are written to a company only when they are not empty, so a
  telephone number, an e-mail address or a website that is there is never replaced by an
  empty one.
\<close>

theorem listing_keys_distinct_first_insertion_wins:
  "distinct (map fst (fst (division_manufacturers_loop dv links ([], 0))))
   \<and> (split_first CHR ''?'' (fst link) \<in> set (map fst seen) \<longrightarrow>
        division_manufacturers_loop dv (link # links) (seen, k)
          = division_manufacturers_loop dv links (seen, k))
   \<and> (\<exists>more. fst (division_manufacturers_loop dv links (seen, k)) = seen @ more)
   \<and> (list_all (\<lambda>l. startswith (fst l) ''/'') links \<longrightarrow>
        distinct (map (\<lambda>e. split_first CHR ''?'' (url (snd e)))
                      (fst (division_manufacturers_loop dv links ([], 0)))))
   \<and> (phone c \<noteq> [] \<longrightarrow> phone (apply_nuxt nd c) \<noteq> [])
   \<and> (email c \<noteq> [] \<longrightarrow> email (apply_nuxt nd c) \<noteq> [])
   \<and> (website c \<noteq> [] \<longrightarrow> website (apply_nuxt nd c) \<noteq> [])"
proof -
  have a: "distinct (map fst (fst (division_manufacturers_loop dv links ([], 0))))"
    by (rule dml_distinct) simp
  have d: "distinct (map (\<lambda>e. split_first CHR ''?'' (url (snd e)))
                      (fst (division_manufacturers_loop dv links ([], 0))))"
    if rel: "list_all (\<lambda>l. startswith (fst l) ''/'') links"
  proof -
    have "list_all (\<lambda>e. split_first CHR ''?'' (url (snd e)) = BASE_URL @ fst e)
            (fst (division_manufacturers_loop dv links ([], 0)))"
      by (rule dml_relative_urls [OF rel]) simp
    then have "map (\<lambda>e. split_first CHR ''?'' (url (snd e)))
                 (fst (division_manufacturers_loop dv links ([], 0)))
             = map ((@) BASE_URL) (map fst (fst (division_manufacturers_loop dv links ([], 0))))"
      by (simp add: list_all_iff)
    then show ?thesis using a by (simp add: distinct_map inj_on_def)
  qed
  have e: "(phone c \<noteq> [] \<longrightarrow> phone (apply_nuxt nd c) \<noteq> [])
         \<and> (email c \<noteq> [] \<longrightarrow> email (apply_nuxt nd c) \<noteq> [])
         \<and> (website c \<noteq> [] \<longrightarrow> website (apply_nuxt nd c) \<noteq> [])"
    by (simp add: apply_nuxt_def Let_def)
  have b: "split_first CHR ''?'' (fst link) \<in> set (map fst seen) \<longrightarrow>
        division_manufacturers_loop dv (link # links) (seen, k)
          = division_manufacturers_loop dv links (seen, k)"
    using dml_dup by blast
  have p: "\<exists>more. fst (division_manufacturers_loop dv links (seen, k)) = seen @ more"
    by (rule dml_prefix)
  show ?thesis using a b p d e by blast
qed

theorem listing_keys_distinct_first_insertion_wins_witness:
  "split_first CHR ''?'' (fst acme_brick_again)
     \<in> set (map fst [(''/company/acme-brick-1'', listed_company masonry_division acme_brick)])
   \<and> division_manufacturers_loop masonry_division [acme_brick_again, acme_brick, acme_brick_again]
        ([(''/company/acme-brick-1'', listed_company masonry_division acme_brick)], 0)
      = division_manufacturers_loop masonry_division [acme_brick, acme_brick_again]
        ([(''/company/acme-brick-1'', listed_company masonry_division acme_brick)], 0)
   \<and> list_all (\<lambda>l. startswith (fst l) ''/'') [acme_brick, acme_brick_again]
   \<and> distinct (map (\<lambda>e. split_first CHR ''?'' (url (snd e)))
        (fst (division_manufacturers_loop masonry_division [acme_brick, acme_brick_again] ([], 0))))
   \<and> distinct (map fst (fst (division_manufacturers_loop masonry_division [acme_brick, acme_brick_again] ([], 0))))
   \<and> phone (fresh_company\<lparr> phone := ''512-555-0100'' \<rparr>) \<noteq> []
   \<and> phone (apply_nuxt nuxt_empty (fresh_company\<lparr> phone := ''512-555-0100'' \<rparr>)) \<noteq> []"
proof -
  have h: "split_first CHR ''?'' (fst acme_brick_again)
     \<in> set (map fst [(''/company/acme-brick-1'', listed_company masonry_division acme_brick)])"
    "list_all (\<lambda>l. startswith (fst l) ''/'') [acme_brick, acme_brick_again]"
    by code_simp+
  show ?thesis
    using h listing_keys_distinct_first_insertion_wins [of masonry_division "[acme_brick, acme_brick_again]"
        acme_brick_again "[(''/company/acme-brick-1'', listed_company masonry_division acme_brick)]" 0
        "fresh_company\<lparr> phone := ''512-555-0100'' \<rparr>" nuxt_empty]
    by simp
qed



























subsection \<open>The detail page\<close>

lemma and_then_None: "and_then (None, c) f = f c"
  by (simp add: and_then_def)

lemma fallback_address_filled: "address c \<noteq> [] \<Longrightarrow> fallback_address soup c = (None, c)"
  by (simp add: fallback_address_def)

lemma fallback_phone_filled: "phone c \<noteq> [] \<Longrightarrow> fallback_phone soup c = (None, c)"
  by (simp add: fallback_phone_def)

lemma fallback_email_filled: "email c \<noteq> [] \<Longrightarrow> fallback_email h soup c = (None, c)"
  by (simp add: fallback_email_def)

lemma fallback_website_fields:
  "\<exists>w. fallback_website (Some pg) c = (None, c\<lparr> website := w \<rparr>)"
proof (cases "fallback_website (Some pg) c = (None, c)")
  case True
  then have "fallback_website (Some pg) c = (None, c\<lparr> website := website c \<rparr>)" by simp
  then show ?thesis by (rule exI)
next
  case False
  then show ?thesis
    by (auto simp: fallback_website_def split: if_splits option.splits)
qed

lemma fallback_website_no_anchor: "anchors pg = [] \<Longrightarrow> fallback_website (Some pg) c = (None, c)"
  by (simp add: fallback_website_def find_all_a_def)

lemma extract_expert_none:
  "re_search False expert_html_pattern h = None \<Longrightarrow> re_search True expert_pattern h = None \<Longrightarrow>
   re_search False alt_expert_pattern h = None \<Longrightarrow> extract_expert h c = c"
  by (simp add: extract_expert_def)

lemma extract_details_filled:
  assumes "apply_nuxt (extract_from_nuxt_data h) c = c1"
    and "address c1 \<noteq> []" and "phone c1 \<noteq> []" and "email c1 \<noteq> []"
  shows "\<exists>w. extract_details h (Some pg) c = (None, extract_expert h (c1\<lparr> website := w \<rparr>))"
proof -
  obtain w where w: "fallback_website (Some pg) c1 = (None, c1\<lparr> website := w \<rparr>)"
    using fallback_website_fields by blast
  have "extract_details h (Some pg) c = (None, extract_expert h (c1\<lparr> website := w \<rparr>))"
    unfolding extract_details_def assms(1)
      fallback_address_filled [OF assms(2)] and_then_None
      fallback_phone_filled [OF assms(3)] w
    using assms(4) by (simp add: fallback_email_filled and_then_None)
  then show ?thesis by blast
qed

lemma apply_nuxt_filled:
  assumes "n_address nd \<noteq> []" and "n_phone nd \<noteq> []" and "n_email nd \<noteq> []" and "n_website nd = []"
  shows "apply_nuxt nd c = c\<lparr>
      address := strip_chars (\<lambda>c. c = CHR '','' \<or> c = CHR '' '')
         (n_address nd @ '', '' @ strip (n_city nd) @ '', '' @ strip (n_state nd) @ '' '' @ strip (n_zip nd)),
      state := state_full (upper (strip (n_state nd))) (strip (n_state nd)),
      phone := n_phone nd, email := n_email nd \<rparr>"
  using assms by (simp add: apply_nuxt_def Let_def)

lemma nuxt_scenario:
  "extract_from_nuxt_data scenario_markup
   = \<lparr> n_address = ''123 Oak Rd.'', n_city = ''Austin'', n_state = ''TX'', n_zip = ''78701'',
       n_phone = ''512-555-0100'', n_email = ''info@example.com'', n_website = [] \<rparr>"
  by code_simp

lemma expert_scenario:
  "re_search False expert_html_pattern scenario_markup = None"
  "re_search True expert_pattern scenario_markup = None"
  "re_search False alt_expert_pattern scenario_markup = None"
  by code_simp+

lemma apply_nuxt_scenario:
  "apply_nuxt \<lparr> n_address = ''123 Oak Rd.'', n_city = ''Austin'', n_state = ''TX'', n_zip = ''78701'',
       n_phone = ''512-555-0100'', n_email = ''info@example.com'', n_website = [] \<rparr> c
   = c\<lparr> address := ''123 Oak Rd., Austin, TX 78701'', state := ''Texas'',
        phone := ''512-555-0100'', email := ''info@example.com'' \<rparr>"
proof -
  let ?nd = "\<lparr> n_address = ''123 Oak Rd.'', n_city = ''Austin'', n_state = ''TX'', n_zip = ''78701'',
       n_phone = ''512-555-0100'', n_email = ''info@example.com'', n_website = [] \<rparr>"
  have a: "strip_chars (\<lambda>c. c = CHR '','' \<or> c = CHR '' '')
         (n_address ?nd @ '', '' @ strip (n_city ?nd) @ '', '' @ strip (n_state ?nd) @ '' '' @ strip (n_zip ?nd))
        = ''123 Oak Rd., Austin, TX 78701''"
    by code_simp
  have b: "state_full (upper (strip (n_state ?nd))) (strip (n_state ?nd)) = ''Texas''"
    by code_simp
  have p: "n_address ?nd \<noteq> []" "n_phone ?nd \<noteq> []" "n_email ?nd \<noteq> []" "n_website ?nd = []"
    by simp_all
  show ?thesis
    using apply_nuxt_filled [OF p, of c] unfolding a b by simp
qed

lemma scd_requests:
  assumes "address c = []" and "net web (url c) 0 = Response pg"
  shows "scrape_company_details web False c
         = (extract_details (html pg) (Some pg) c, [RateLimitSleep, Get (url c)])"
  using assms by (simp add: scrape_company_details_def)

lemma scd_scenario:
  assumes "address c = []" and "net web (url c) 0 = Response pg" and "html pg = scenario_markup"
  shows "\<exists>w. scrape_company_details web False c
           = ((None, c\<lparr> address := ''123 Oak Rd., Austin, TX 78701'', state := ''Texas'',
                          phone := ''512-555-0100'', email := ''info@example.com'', website := w \<rparr>),
              [RateLimitSleep, Get (url c)])"
proof -
  let ?c1 = "c\<lparr> address := ''123 Oak Rd., Austin, TX 78701'', state := ''Texas'',
                phone := ''512-555-0100'', email := ''info@example.com'' \<rparr>"
  have n: "apply_nuxt (extract_from_nuxt_data scenario_markup) c = ?c1"
    unfolding nuxt_scenario by (rule apply_nuxt_scenario)
  obtain w where "extract_details scenario_markup (Some pg) c
      = (None, extract_expert scenario_markup (?c1\<lparr> website := w \<rparr>))"
    using extract_details_filled [OF n] by auto
  then have "extract_details scenario_markup (Some pg) c = (None, ?c1\<lparr> website := w \<rparr>)"
    by (simp add: extract_expert_none [OF expert_scenario])
  then have "scrape_company_details web False c
           = ((None, ?c1\<lparr> website := w \<rparr>), [RateLimitSleep, Get (url c)])"
    unfolding scd_requests [OF assms(1,2)] assms(3) by simp
  then show ?thesis by (intro exI [of _ w])
qed

text \<open>
  C8, as the code has it. A company with no address yet, whose page is fetched with
  \<open>requests\<close> and has the text of the scenario, the six fields serialized one after
  the other: the call raises nothing, the address is the street, the city, the state and
  the ZIP code joined as \<open>123 Oak Rd., Austin, TX 78701\<close>, with the abbreviation of the state
  as it stands; the full name \<open>Texas\<close>, read from the table, goes to the field \<open>state\<close>;
  the telephone number is the serialized one, unchanged; the e-mail address is
  \<open>info@example.com\<close>.
\<close>

theorem scenario_markup_extraction:
  assumes "address c = []" and "net web (url c) 0 = Response pg" and "html pg = scenario_markup"
  shows "fst (fst (scrape_company_details web False c)) = None
       \<and> address (snd (fst (scrape_company_details web False c))) = ''123 Oak Rd., Austin, TX 78701''
       \<and> state (snd (fst (scrape_company_details web False c))) = ''Texas''
       \<and> phone (snd (fst (scrape_company_details web False c))) = ''512-555-0100''
       \<and> email (snd (fst (scrape_company_details web False c))) = ''info@example.com''
       \<and> snd (scrape_company_details web False c) = [RateLimitSleep, Get (url c)]"
proof -
  obtain w where "scrape_company_details web False c
           = ((None, c\<lparr> address := ''123 Oak Rd., Austin, TX 78701'', state := ''Texas'',
                          phone := ''512-555-0100'', email := ''info@example.com'', website := w \<rparr>),
              [RateLimitSleep, Get (url c)])"
    using scd_scenario [OF assms] by blast
  then show ?thesis by simp
qed

lemma scenario_inputs:
  "address fresh_company = []"
  "net web_scenario (url fresh_company) 0 = Response (page scenario_markup [])"
  "html (page scenario_markup []) = scenario_markup"
  by (simp_all add: fresh_company_def new_Company_def web_scenario_def page_def)

theorem scenario_markup_extraction_witness:
  "address fresh_company = []
   \<and> net web_scenario (url fresh_company) 0 = Response (page scenario_markup [])
   \<and> html (page scenario_markup []) = scenario_markup
   \<and> address (snd (fst (scrape_company_details web_scenario False fresh_company)))
       = ''123 Oak Rd., Austin, TX 78701''
   \<and> state (snd (fst (scrape_company_details web_scenario False fresh_company))) = ''Texas''
   \<and> phone (snd (fst (scrape_company_details web_scenario False fresh_company))) = ''512-555-0100''
   \<and> email (snd (fst (scrape_company_details web_scenario False fresh_company))) = ''info@example.com''"
  using scenario_inputs scenario_markup_extraction [OF scenario_inputs] by simp

text \<open>
  The address of the scenario is not the one with \<open>Texas\<close> in it, and the telephone number
  is not brought to the form \<open>(512) 555-0100\<close>.
\<close>

theorem scenario_address_keeps_abbreviation_phone_not_normalized:
  "address (snd (fst (scrape_company_details web_scenario False fresh_company)))
       = ''123 Oak Rd., Austin, TX 78701''
   \<and> address (snd (fst (scrape_company_details web_scenario False fresh_company)))
       \<noteq> ''123 Oak Rd., Austin, Texas 78701''
   \<and> phone (snd (fst (scrape_company_details web_scenario False fresh_company))) = ''512-555-0100''
   \<and> phone (snd (fst (scrape_company_details web_scenario False fresh_company))) \<noteq> ''(512) 555-0100''"
proof -
  obtain w where "scrape_company_details web_scenario False fresh_company
           = ((None, fresh_company\<lparr> address := ''123 Oak Rd., Austin, TX 78701'', state := ''Texas'',
                          phone := ''512-555-0100'', email := ''info@example.com'', website := w \<rparr>),
              [RateLimitSleep, Get (url fresh_company)])"
    using scd_scenario [OF scenario_inputs] by blast
  then show ?thesis by simp
qed





lemma nuxt_detail:
  "extract_from_nuxt_data detail_markup
   = \<lparr> n_address = ''1 Rd'', n_city = ''A'', n_state = ''TX'', n_zip = ''78701'',
       n_phone = ''5'', n_email = ''a@b'', n_website = [] \<rparr>"
  by code_simp

lemma expert_detail:
  "re_search False expert_html_pattern detail_markup = None"
  "re_search True expert_pattern detail_markup = None"
  "re_search False alt_expert_pattern detail_markup = None"
  by code_simp+

lemma apply_nuxt_detail:
  "apply_nuxt \<lparr> n_address = ''1 Rd'', n_city = ''A'', n_state = ''TX'', n_zip = ''78701'',
       n_phone = ''5'', n_email = ''a@b'', n_website = [] \<rparr> c
   = c\<lparr> address := ''1 Rd, A, TX 78701'', state := ''Texas'', phone := ''5'', email := ''a@b'' \<rparr>"
proof -
  let ?nd = "\<lparr> n_address = ''1 Rd'', n_city = ''A'', n_state = ''TX'', n_zip = ''78701'',
       n_phone = ''5'', n_email = ''a@b'', n_website = [] \<rparr>"
  have a: "strip_chars (\<lambda>c. c = CHR '','' \<or> c = CHR '' '')
         (n_address ?nd @ '', '' @ strip (n_city ?nd) @ '', '' @ strip (n_state ?nd) @ '' '' @ strip (n_zip ?nd))
        = ''1 Rd, A, TX 78701''"
    by code_simp
  have b: "state_full (upper (strip (n_state ?nd))) (strip (n_state ?nd)) = ''Texas''"
    by code_simp
  have p: "n_address ?nd \<noteq> []" "n_phone ?nd \<noteq> []" "n_email ?nd \<noteq> []" "n_website ?nd = []"
    by simp_all
  show ?thesis
    using apply_nuxt_filled [OF p, of c] unfolding a b by simp
qed

lemma scd_detail:
  assumes "address c = []" and "net web (url c) 0 = Response (page detail_markup [])"
  shows "scrape_company_details web False c
           = ((None, c\<lparr> address := ''1 Rd, A, TX 78701'', state := ''Texas'', phone := ''5'',
                          email := ''a@b'' \<rparr>),
              [RateLimitSleep, Get (url c)])"
proof -
  let ?c1 = "c\<lparr> address := ''1 Rd, A, TX 78701'', state := ''Texas'', phone := ''5'', email := ''a@b'' \<rparr>"
  have n: "apply_nuxt (extract_from_nuxt_data detail_markup) c = ?c1"
    unfolding nuxt_detail by (rule apply_nuxt_detail)
  have w: "fallback_website (Some (page detail_markup [])) ?c1 = (None, ?c1)"
    by (rule fallback_website_no_anchor) (simp add: page_def)
  have "extract_details detail_markup (Some (page detail_markup [])) c = (None, extract_expert detail_markup ?c1)"
    unfolding extract_details_def n
    by (simp add: fallback_address_filled fallback_phone_filled fallback_email_filled and_then_None w)
  then have "extract_details detail_markup (Some (page detail_markup [])) c = (None, ?c1)"
    by (simp add: extract_expert_none [OF expert_detail])
  then show ?thesis
    unfolding scd_requests [OF assms(1,2)] by (simp add: page_def)
qed

text \<open>
  The same as an equation for evaluation: on a page of that form the result is read off,
  and everywhere else the definition is followed.
\<close>

lemma scrape_company_details_detail_page [code]:
  "scrape_company_details web selenium company =
     (if \<not> selenium \<and> address company = [] \<and> net web (url company) 0 = Response (page detail_markup [])
      then ((None, company\<lparr> address := ''1 Rd, A, TX 78701'', state := ''Texas'', phone := ''5'',
                              email := ''a@b'' \<rparr>),
            [RateLimitSleep, Get (url company)])
      else (let (soup, tr) = (if selenium then get_page_with_selenium web (url company) else (None, []));
          company = (if selenium
                     then (case soup of
                             Some pg \<Rightarrow> apply_rendered (extract_from_rendered_html pg) company
                           | None \<Rightarrow> company)
                     else company)
      in if address company = []
         then (case net web (url company) 0 of
                 Response pg \<Rightarrow>
                   (extract_details (html pg) (Some pg) company, tr @ [RateLimitSleep, Get (url company)])
               | _ \<Rightarrow> ((None, company), tr @ [RateLimitSleep, Get (url company)]))
         else (extract_details (case soup of Some pg \<Rightarrow> html pg | None \<Rightarrow> []) soup company, tr)))"
proof (cases "\<not> selenium \<and> address company = [] \<and> net web (url company) 0 = Response (page detail_markup [])")
  case True
  then show ?thesis using scd_detail [of company web] by simp
next
  case False
  then show ?thesis unfolding scrape_company_details_def by (simp only: if_False)
qed

subsection \<open>Runs of the crawl\<close>




lemma full_shared_run:
  "snd full_shared = Returned
   \<and> detail_calls (fst full_shared) = [BASE_URL @ ''/company/x-1'', BASE_URL @ ''/company/x-1'']
   \<and> store_addresses (fst full_shared) = [[''1 Rd, A, TX 78701''], [''1 Rd, A, TX 78701'']]
   \<and> store_keys (fst full_shared) = [BASE_URL @ ''/company/x-1'', BASE_URL @ ''/company/x-1'']"
  by code_simp





text \<open>
  The store of the crawl in one pass holds the company of the two divisions twice, under
  the same key.
\<close>

theorem store_holds_shared_company_twice:
  "store_keys (fst full_shared) = [BASE_URL @ ''/company/x-1'', BASE_URL @ ''/company/x-1'']
   \<and> \<not> distinct (store_keys (fst full_shared))"
  using full_shared_run by simp

end
